theory Spec2Isabelle
  imports Complex_Main
begin

section \<open>Tokenizer (src/parser/tokenizer.ts)\<close>

text \<open>
  The scanner state is the part of the (trimmed) input that lies at or after
  \<open>this.position\<close>, the position itself and the tokens pushed so far:
  \<open>this.input[this.position]\<close> is the head of \<open>rest\<close>. A thrown \<open>Error\<close> is
  \<open>Inl\<close> of its message. Characters are the code units below 256; \<open>\s\<close> matches
  tab, line feed, vertical tab, form feed, carriage return, space and no-break space
  there, \<open>\d\<close> the ASCII digits and \<open>\w\<close> the ASCII letters, digits and
  underscore.
\<close>

function showNat :: "nat \<Rightarrow> string" where
  "showNat n = (if n < 10 then [''0123456789'' ! n]
                else showNat (n div 10) @ [''0123456789'' ! (n mod 10)])"
  by pat_completeness auto
termination
  by (relation "measure id") auto

declare showNat.simps [simp del]

definition showInt :: "int \<Rightarrow> string" where
  "showInt i = (if i < 0 then CHR ''-'' # showNat (nat (- i)) else showNat (nat i))"

definition isWhitespace :: "char \<Rightarrow> bool" where
  "isWhitespace c = (of_char c \<in> {9::nat, 10, 11, 12, 13, 32, 160})"

definition isDigit :: "char \<Rightarrow> bool" where
  "isDigit c = (48 \<le> (of_char c :: nat) \<and> (of_char c :: nat) \<le> 57)"

definition isAlpha :: "char \<Rightarrow> bool" where
  "isAlpha c = ((65 \<le> (of_char c :: nat) \<and> (of_char c :: nat) \<le> 90)
              \<or> (97 \<le> (of_char c :: nat) \<and> (of_char c :: nat) \<le> 122))"

definition isAlphaNumeric :: "char \<Rightarrow> bool" where
  "isAlphaNumeric c = (isAlpha c \<or> isDigit c)"

definition trim :: "string \<Rightarrow> string" where
  "trim s = rev (dropWhile isWhitespace (rev (dropWhile isWhitespace s)))"

datatype TokenType =
    CSS_SELECTOR | PIPE | FUNCTION_NAME | OPEN_PAREN | CLOSE_PAREN | OPEN_BRACKET
  | CLOSE_BRACKET | STRING | NUMBER | COMMA | PROPERTY | EOF | WHITESPACE

fun typeName :: "TokenType \<Rightarrow> string" where
  "typeName CSS_SELECTOR = ''CSS_SELECTOR''"
| "typeName PIPE = ''PIPE''"
| "typeName FUNCTION_NAME = ''FUNCTION_NAME''"
| "typeName OPEN_PAREN = ''OPEN_PAREN''"
| "typeName CLOSE_PAREN = ''CLOSE_PAREN''"
| "typeName OPEN_BRACKET = ''OPEN_BRACKET''"
| "typeName CLOSE_BRACKET = ''CLOSE_BRACKET''"
| "typeName STRING = ''STRING''"
| "typeName NUMBER = ''NUMBER''"
| "typeName COMMA = ''COMMA''"
| "typeName PROPERTY = ''PROPERTY''"
| "typeName EOF = ''EOF''"
| "typeName WHITESPACE = ''WHITESPACE''"

record Token =
  tokType :: TokenType
  tokValue :: string
  tokPosition :: int
  tokLength :: nat

record Tokenizer =
  rest :: string
  position :: nat
  tokens :: "Token list"

definition advance :: "nat \<Rightarrow> Tokenizer \<Rightarrow> Tokenizer" where
  "advance n t = t\<lparr> rest := drop n (rest t), position := position t + n \<rparr>"

definition addToken :: "TokenType \<Rightarrow> string \<Rightarrow> nat option \<Rightarrow> Tokenizer \<Rightarrow> Tokenizer" where
  "addToken ty v start t =
     t\<lparr> tokens := tokens t @
          [\<lparr> tokType = ty, tokValue = v,
             tokPosition = (case start of Some s \<Rightarrow> int s | None \<Rightarrow> int (position t) - int (length v)),
             tokLength = length v \<rparr>] \<rparr>"

definition skipWhitespace :: "Tokenizer \<Rightarrow> Tokenizer" where
  "skipWhitespace t = advance (length (takeWhile isWhitespace (rest t))) t"

fun unescape :: "char \<Rightarrow> char" where
  "unescape c =
     (if c = CHR ''n'' then CHR 0x0A
      else if c = CHR ''t'' then CHR 0x09
      else if c = CHR ''r'' then CHR 0x0D
      else c)"

fun scanString :: "char \<Rightarrow> string \<Rightarrow> string \<Rightarrow> string \<times> string" where
  "scanString quote acc [] = (acc, [])"
| "scanString quote acc [c] = (if c = quote then (acc, [c]) else (acc @ [c], []))"
| "scanString quote acc (c # e # cs) =
     (if c = quote then (acc, c # e # cs)
      else if c = CHR 0x5C then scanString quote (acc @ [unescape e]) cs
      else scanString quote (acc @ [c]) (e # cs))"

definition tokenizeString :: "char \<Rightarrow> Tokenizer \<Rightarrow> string + Tokenizer" where
  "tokenizeString quote t =
     (let start = position t;
          t1 = advance 1 t;
          (v, remaining) = scanString quote [] (rest t1);
          t2 = advance (length (rest t1) - length remaining) t1
      in if rest t2 = []
         then Inl (''Unterminated string starting at position '' @ showNat start)
         else Inr (addToken STRING v (Some start) (advance 1 t2)))"

definition tokenizeNumber :: "Tokenizer \<Rightarrow> Tokenizer" where
  "tokenizeNumber t =
     (let start = position t;
          sign = (if rest t \<noteq> [] \<and> hd (rest t) = CHR ''-'' then ''-'' else []);
          t1 = advance (length sign) t;
          digits = takeWhile (\<lambda>c. isDigit c \<or> c = CHR ''.'') (rest t1)
      in addToken NUMBER (sign @ digits) (Some start) (advance (length digits) t1))"

definition isWordChar :: "char \<Rightarrow> bool" where
  "isWordChar c = (isAlphaNumeric c \<or> c = CHR ''_'' \<or> c = CHR ''-'')"

fun readWord :: "string \<Rightarrow> string" where
  "readWord [] = []"
| "readWord (c # cs) =
     (if isWordChar c \<or> c = CHR ''.'' \<or> c = CHR ''#'' then c # takeWhile isWordChar cs else [])"

definition isCssChar :: "char \<Rightarrow> bool" where
  "isCssChar c = (c \<in> set ''.#>+~[]:'' \<or> isWhitespace c)"

fun isSimpleWord :: "string \<Rightarrow> bool" where
  "isSimpleWord [] = False"
| "isSimpleWord (c # cs) =
     ((isAlpha c \<or> c = CHR ''_'') \<and> list_all (\<lambda>d. isAlphaNumeric d \<or> d = CHR ''_'' \<or> d = CHR ''-'') cs)"

definition segmentFrom :: "string \<Rightarrow> string" where
  "segmentFrom s = takeWhile (\<lambda>c. c \<noteq> CHR ''|'') s"

definition looksLikeCssSelector :: "string \<Rightarrow> Token list \<Rightarrow> bool" where
  "looksLikeCssSelector fromStart toks =
     (let segment = trim (segmentFrom fromStart)
      in if segment = [] then False
         else if list_ex isCssChar segment then True
         else if isSimpleWord segment then (length toks = 0)
         else False)"

definition tokenizeIdentifier :: "Tokenizer \<Rightarrow> Tokenizer" where
  "tokenizeIdentifier t =
     (let start = position t;
          word = readWord (rest t);
          t1 = advance (length word) t;
          peek = dropWhile isWhitespace (rest t1)
      in if peek \<noteq> [] \<and> hd peek = CHR ''(''
         then addToken FUNCTION_NAME word (Some start) t1
         else if looksLikeCssSelector (rest t) (tokens t)
         then addToken CSS_SELECTOR (trim (segmentFrom (rest t))) (Some start)
                (advance (length (segmentFrom (rest t))) t)
         else addToken PROPERTY word (Some start) t1)"

lemma rest_addToken [simp]: "rest (addToken ty v s t) = rest t"
  by (simp add: addToken_def)

lemma rest_advance [simp]: "rest (advance n t) = drop n (rest t)"
  by (simp add: advance_def)

lemma rest_skipWhitespace: "length (rest (skipWhitespace t)) \<le> length (rest t)"
  by (simp add: skipWhitespace_def)

lemma scanString_length: "scanString q acc s = (v, r) \<Longrightarrow> length r \<le> length s"
proof (induction q acc s arbitrary: v r rule: scanString.induct)
  case (1 quote acc)
  then show ?case by simp
next
  case (2 quote acc c)
  then show ?case by (auto split: if_splits)
next
  case (3 quote acc c e cs)
  show ?case
  proof (cases "c = quote")
    case True
    with 3(3) show ?thesis by simp
  next
    case False
    show ?thesis
    proof (cases "c = CHR 0x5C")
      case True
      with False 3(3) have "scanString quote (acc @ [unescape e]) cs = (v, r)" by simp
      from 3(1)[OF False True this] show ?thesis by simp
    next
      case bs: False
      with False 3(3) have "scanString quote (acc @ [c]) (e # cs) = (v, r)" by simp
      from 3(2)[OF False bs this] show ?thesis by simp
    qed
  qed
qed

lemma tokenizeString_shorter:
  "tokenizeString q t = Inr t' \<Longrightarrow> rest t \<noteq> [] \<Longrightarrow> length (rest t') < length (rest t)"
  by (auto simp: tokenizeString_def Let_def split: prod.splits if_splits dest!: scanString_length)

lemma tokenizeNumber_shorter:
  "rest t = c # cs \<Longrightarrow> isDigit c \<or> c = CHR ''-'' \<Longrightarrow> length (rest (tokenizeNumber t)) < length (rest t)"
  by (auto simp: tokenizeNumber_def Let_def)

lemma tokenizeIdentifier_shorter:
  "rest t = c # cs \<Longrightarrow> c \<noteq> CHR ''|'' \<Longrightarrow> isWordChar c \<or> c = CHR ''.'' \<or> c = CHR ''#'' \<Longrightarrow>
   length (rest (tokenizeIdentifier t)) < length (rest t)"
  by (auto simp: tokenizeIdentifier_def Let_def segmentFrom_def)


definition startsNumber :: "char \<Rightarrow> string \<Rightarrow> bool" where
  "startsNumber c cs = (isDigit c \<or> (c = CHR ''-'' \<and> cs \<noteq> [] \<and> isDigit (hd cs)))"

definition startsIdentifier :: "char \<Rightarrow> bool" where
  "startsIdentifier c = (isAlpha c \<or> c = CHR ''_'' \<or> c = CHR ''-'' \<or> c = CHR ''.'' \<or> c = CHR ''#'')"

definition scanToken :: "Tokenizer \<Rightarrow> string + Tokenizer" where
  "scanToken t =
     (let t1 = skipWhitespace t in
      case rest t1 of
        [] \<Rightarrow> Inr t1
      | c # cs \<Rightarrow>
          if c = CHR ''|'' then Inr (advance 1 (addToken PIPE [c] None t1))
          else if c = CHR ''('' then Inr (advance 1 (addToken OPEN_PAREN [c] None t1))
          else if c = CHR '')'' then Inr (advance 1 (addToken CLOSE_PAREN [c] None t1))
          else if c = CHR ''['' then Inr (advance 1 (addToken OPEN_BRACKET [c] None t1))
          else if c = CHR '']'' then Inr (advance 1 (addToken CLOSE_BRACKET [c] None t1))
          else if c = CHR '','' then Inr (advance 1 (addToken COMMA [c] None t1))
          else if c = CHR 0x22 \<or> c = CHR 0x27 then tokenizeString c t1
          else if startsNumber c cs then Inr (tokenizeNumber t1)
          else if startsIdentifier c then Inr (tokenizeIdentifier t1)
          else Inl (''Unexpected character '' @ [CHR 0x27, c, CHR 0x27] @ '' at position ''
                     @ showNat (position t1)))"

lemma scanToken_Nil: "rest (skipWhitespace t) = [] \<Longrightarrow> scanToken t = Inr (skipWhitespace t)"
  by (simp add: scanToken_def Let_def)

lemma scanToken_Cons:
  "rest (skipWhitespace t) = c # cs \<Longrightarrow>
   scanToken t =
     (if c = CHR ''|'' then Inr (advance 1 (addToken PIPE [c] None (skipWhitespace t)))
      else if c = CHR ''('' then Inr (advance 1 (addToken OPEN_PAREN [c] None (skipWhitespace t)))
      else if c = CHR '')'' then Inr (advance 1 (addToken CLOSE_PAREN [c] None (skipWhitespace t)))
      else if c = CHR ''['' then Inr (advance 1 (addToken OPEN_BRACKET [c] None (skipWhitespace t)))
      else if c = CHR '']'' then Inr (advance 1 (addToken CLOSE_BRACKET [c] None (skipWhitespace t)))
      else if c = CHR '','' then Inr (advance 1 (addToken COMMA [c] None (skipWhitespace t)))
      else if c = CHR 0x22 \<or> c = CHR 0x27 then tokenizeString c (skipWhitespace t)
      else if startsNumber c cs then Inr (tokenizeNumber (skipWhitespace t))
      else if startsIdentifier c then Inr (tokenizeIdentifier (skipWhitespace t))
      else Inl (''Unexpected character '' @ [CHR 0x27, c, CHR 0x27] @ '' at position ''
                 @ showNat (position (skipWhitespace t))))"
  by (simp add: scanToken_def Let_def)

lemma scanToken_shorter:
  assumes "scanToken t = Inr t'" and "rest t \<noteq> []"
  shows "length (rest t') < length (rest t)"
proof (cases "rest (skipWhitespace t)")
  case Nil
  with assms show ?thesis by (simp add: scanToken_Nil)
next
  case (Cons c cs)
  let ?t1 = "skipWhitespace t"
  have le: "length (rest ?t1) \<le> length (rest t)" by (rule rest_skipWhitespace)
  note eq = assms(1) [unfolded scanToken_Cons [OF Cons]]
  have "length (rest t') < length (rest ?t1)"
  proof (cases "c \<in> set ''|()[],''")
    case True
    with eq Cons show ?thesis by (auto split: if_splits)
  next
    case single: False
    show ?thesis
    proof (cases "c = CHR 0x22 \<or> c = CHR 0x27")
      case True
      with eq single have "tokenizeString c ?t1 = Inr t'" by (simp split: if_splits)
      then show ?thesis using tokenizeString_shorter [of c ?t1 t'] Cons by simp
    next
      case quote: False
      show ?thesis
      proof (cases "startsNumber c cs")
        case True
        with eq single quote have "t' = tokenizeNumber ?t1" by (simp split: if_splits)
        moreover from True have "isDigit c \<or> c = CHR ''-''" by (auto simp: startsNumber_def)
        ultimately show ?thesis using tokenizeNumber_shorter [of ?t1 c cs] Cons by simp
      next
        case number: False
        show ?thesis
        proof (cases "startsIdentifier c")
          case True
          with eq single quote number have t': "t' = tokenizeIdentifier ?t1" by (simp split: if_splits)
          from True have "isWordChar c \<or> c = CHR ''.'' \<or> c = CHR ''#''"
            by (auto simp: startsIdentifier_def isWordChar_def isAlphaNumeric_def)
          moreover from single have "c \<noteq> CHR ''|''" by simp
          ultimately show ?thesis using tokenizeIdentifier_shorter [of ?t1 c cs] Cons t' by simp
        next
          case False
          with eq single quote number show ?thesis by (simp split: if_splits)
        qed
      qed
    qed
  qed
  with le show ?thesis by simp
qed

function tokenizeLoop :: "Tokenizer \<Rightarrow> string + Tokenizer" where
  "tokenizeLoop t =
     (if rest t = [] then Inr t
      else case scanToken t of Inl e \<Rightarrow> Inl e | Inr t' \<Rightarrow> tokenizeLoop t')"
  by pat_completeness auto
termination
  by (relation "measure (\<lambda>t. length (rest t))") (auto dest: scanToken_shorter)

declare tokenizeLoop.simps [simp del]

definition tokenize :: "string \<Rightarrow> string + Token list" where
  "tokenize inp =
     (case tokenizeLoop \<lparr> rest = trim inp, position = 0, tokens = [] \<rparr> of
        Inl e \<Rightarrow> Inl e
      | Inr t \<Rightarrow> Inr (tokens (addToken EOF [] None t)))"

subsection \<open>Facts about one scanning step\<close>

lemma tokenizeLoop_Nil: "rest t = [] \<Longrightarrow> tokenizeLoop t = Inr t"
  by (simp add: tokenizeLoop.simps)

lemma tokenizeLoop_step:
  "rest t \<noteq> [] \<Longrightarrow>
   tokenizeLoop t = (case scanToken t of Inl e \<Rightarrow> Inl e | Inr t' \<Rightarrow> tokenizeLoop t')"
  by (simp add: tokenizeLoop.simps)





















section \<open>Parser (src/parser/parser.ts)\<close>

text \<open>
  The parser's state is the list of tokens at or after \<open>this.position\<close>;
  \<open>peek()\<close> is its head and \<open>advance()\<close> drops it. The tokenizer's list always ends
  with the \<open>EOF\<close> token, which no path advances over; an exhausted list is read as
  \<open>EOF\<close> too. A thrown error is \<open>Inl\<close> of its message, which is all that
  \<open>parse\<close> keeps of it. \<open>Number.parseInt(s, 10)\<close> is \<open>parseInt\<close>, with \<open>None\<close>
  for \<open>NaN\<close>.
\<close>

datatype Command =
    CssSelectorCmd string
  | FunctionCmd string "string list"
  | PropertyCmd string
  | ArrayAccessCmd int

record ParseResult =
  commands :: "Command list"
  isValid :: bool
  errors :: "string list"

definition digitValue :: "string \<Rightarrow> nat" where
  "digitValue ds = foldl (\<lambda>a c. 10 * a + (of_char c - 48)) 0 ds"

definition parseInt :: "string \<Rightarrow> int option" where
  "parseInt s =
     (let s1 = dropWhile isWhitespace s;
          negative = (s1 \<noteq> [] \<and> hd s1 = CHR ''-'');
          s2 = (if s1 \<noteq> [] \<and> (hd s1 = CHR ''-'' \<or> hd s1 = CHR ''+'') then tl s1 else s1);
          ds = takeWhile isDigit s2
      in if ds = [] then None
         else Some (if negative then - int (digitValue ds) else int (digitValue ds)))"

definition peekType :: "Token list \<Rightarrow> TokenType" where
  "peekType ts = (case ts of [] \<Rightarrow> EOF | t # r \<Rightarrow> tokType t)"

definition isAtEnd :: "Token list \<Rightarrow> bool" where
  "isAtEnd ts = (ts = [] \<or> peekType ts = EOF)"

definition parseArgument :: "Token \<Rightarrow> Token list \<Rightarrow> string + (string \<times> Token list)" where
  "parseArgument token r =
     (if tokType token = STRING \<or> tokType token = NUMBER then Inr (tokValue token, r)
      else if tokType token = PROPERTY then Inr (tokValue token, r)
      else Inl (''Expected string, number, or identifier as argument, got ''
                 @ typeName (tokType token)))"

lemma parseArgument_rest: "parseArgument token r = Inr (a, r') \<Longrightarrow> r' = r"
  by (auto simp: parseArgument_def split: if_splits)

function parseArguments :: "string list \<Rightarrow> Token list \<Rightarrow> string + (string list \<times> Token list)" where
  "parseArguments args ts =
     (if peekType ts \<noteq> CLOSE_PAREN \<and> \<not> isAtEnd ts then
        (case parseArgument (hd ts) (tl ts) of
           Inl e \<Rightarrow> Inl e
         | Inr (arg, r) \<Rightarrow>
             if peekType r = COMMA then parseArguments (args @ [arg]) (tl r)
             else if peekType r \<noteq> CLOSE_PAREN then Inl ''Expected ',' or ')' in function arguments''
             else parseArguments (args @ [arg]) r)
      else Inr (args, ts))"
  by pat_completeness auto
termination
proof (relation "measure (\<lambda>(args, ts). length ts)", goal_cases)
  case 1
  show ?case by simp
next
  case (2 args ts x arg r)
  then have "r = tl ts" and "ts \<noteq> []" by (auto dest: parseArgument_rest simp: isAtEnd_def)
  then show ?case by (cases ts) auto
next
  case (3 args ts x arg r)
  then have "r = tl ts" and "ts \<noteq> []" by (auto dest: parseArgument_rest simp: isAtEnd_def)
  then show ?case by (cases ts) auto
qed

declare parseArguments.simps [simp del]

lemma parseArguments_length:
  "parseArguments args ts = Inr (a, r) \<Longrightarrow> length r \<le> length ts"
proof (induction args ts arbitrary: a r rule: parseArguments.induct)
  case (1 args ts)
  show ?case
  proof (cases "peekType ts \<noteq> CLOSE_PAREN \<and> \<not> isAtEnd ts")
    case False
    with 1(3) show ?thesis by (simp add: parseArguments.simps [of args ts])
  next
    case True
    then have ne: "ts \<noteq> []" by (simp add: isAtEnd_def)
    from True 1(3) obtain arg r1 where pa: "parseArgument (hd ts) (tl ts) = Inr (arg, r1)"
      by (auto simp: parseArguments.simps [of args ts] split: sum.splits)
    then have r1: "r1 = tl ts" by (rule parseArgument_rest)
    show ?thesis
    proof (cases "peekType r1 = COMMA")
      case comma: True
      with True pa 1(3) have "parseArguments (args @ [arg]) (tl r1) = Inr (a, r)"
        by (simp add: parseArguments.simps [of args ts])
      from 1(1) [OF True pa refl comma this] have "length r \<le> length (tl r1)" .
      then show ?thesis using r1 by simp
    next
      case nocomma: False
      with True pa 1(3) have cl: "\<not> peekType r1 \<noteq> CLOSE_PAREN"
        and rec: "parseArguments (args @ [arg]) r1 = Inr (a, r)"
        by (auto simp: parseArguments.simps [of args ts] split: if_splits)
      from 1(2) [OF True pa refl nocomma cl rec] have "length r \<le> length r1" .
      then show ?thesis using r1 by simp
    qed
  qed
qed

definition parseFunction :: "Token \<Rightarrow> Token list \<Rightarrow> string + (Command \<times> Token list)" where
  "parseFunction nameToken r =
     (if peekType r \<noteq> OPEN_PAREN
      then Inl (''Expected '(' after function name ''
                 @ [CHR 0x27] @ tokValue nameToken @ [CHR 0x27])
      else
        (case parseArguments [] (tl r) of
           Inl e \<Rightarrow> Inl e
         | Inr (args, r2) \<Rightarrow>
             if peekType r2 \<noteq> CLOSE_PAREN then Inl ''Expected ')' to close function call''
             else Inr (FunctionCmd (tokValue nameToken) args, tl r2)))"

definition parseArrayAccess :: "Token list \<Rightarrow> string + (Command \<times> Token list)" where
  "parseArrayAccess r =
     (if peekType r \<noteq> NUMBER then Inl ''Expected number in array access''
      else
        (case parseInt (tokValue (hd r)) of
           None \<Rightarrow> Inl (''Invalid number in array access: '' @ tokValue (hd r))
         | Some index \<Rightarrow>
             if peekType (tl r) \<noteq> CLOSE_BRACKET then Inl ''Expected ']' to close array access''
             else Inr (ArrayAccessCmd index, tl (tl r))))"

definition parseCommand :: "Token \<Rightarrow> Token list \<Rightarrow> string + (Command \<times> Token list)" where
  "parseCommand token r =
     (if tokType token = CSS_SELECTOR then Inr (CssSelectorCmd (tokValue token), r)
      else if tokType token = FUNCTION_NAME then parseFunction token r
      else if tokType token = PROPERTY then Inr (PropertyCmd (tokValue token), r)
      else if tokType token = OPEN_BRACKET then parseArrayAccess r
      else Inl (''Unexpected token: '' @ typeName (tokType token) @ '' at position ''
                 @ showInt (tokPosition token)))"

lemma parseCommand_length:
  assumes "parseCommand token r = Inr (c, r')"
  shows "length r' \<le> length r"
proof -
  consider (selector) "tokType token = CSS_SELECTOR"
    | (invocation) "tokType token = FUNCTION_NAME"
    | (property) "tokType token = PROPERTY"
    | (bracket) "tokType token = OPEN_BRACKET"
    | (other) "tokType token \<notin> {CSS_SELECTOR, FUNCTION_NAME, PROPERTY, OPEN_BRACKET}"
    by blast
  then show ?thesis
  proof cases
    case selector
    with assms show ?thesis by (simp add: parseCommand_def)
  next
    case invocation
    with assms have pf: "parseFunction token r = Inr (c, r')" by (simp add: parseCommand_def)
    then obtain args r2 where pa: "parseArguments [] (tl r) = Inr (args, r2)" and r': "r' = tl r2"
      by (auto simp: parseFunction_def split: if_splits sum.splits)
    from parseArguments_length [OF pa] have "length r2 \<le> length (tl r)" .
    then show ?thesis using r' by simp
  next
    case property
    with assms show ?thesis by (simp add: parseCommand_def)
  next
    case bracket
    with assms have "parseArrayAccess r = Inr (c, r')" by (simp add: parseCommand_def)
    then have "r' = tl (tl r)"
      by (auto simp: parseArrayAccess_def split: if_splits option.splits)
    then show ?thesis by simp
  next
    case other
    with assms show ?thesis by (simp add: parseCommand_def)
  qed
qed

function parseCommands :: "Command list \<Rightarrow> Token list \<Rightarrow> string + Command list" where
  "parseCommands acc ts =
     (if isAtEnd ts then Inr acc
      else
        (case parseCommand (hd ts) (tl ts) of
           Inl e \<Rightarrow> Inl e
         | Inr (command, r) \<Rightarrow>
             parseCommands (acc @ [command]) (if peekType r = PIPE then tl r else r)))"
  by pat_completeness auto
termination
proof (relation "measure (\<lambda>(acc, ts). length ts)", goal_cases)
  case 1
  show ?case by simp
next
  case (2 acc ts x command r)
  then have "ts \<noteq> []" by (simp add: isAtEnd_def)
  moreover from 2 have "length r \<le> length (tl ts)"
    using parseCommand_length [of "hd ts" "tl ts" command r] by simp
  ultimately show ?case by (cases ts) auto
qed

declare parseCommands.simps [simp del]

definition parse :: "string \<Rightarrow> ParseResult" where
  "parse inp =
     (case tokenize inp of
        Inl e \<Rightarrow> \<lparr> commands = [], isValid = False, errors = [e] \<rparr>
      | Inr toks \<Rightarrow>
          (case parseCommands [] toks of
             Inl e \<Rightarrow> \<lparr> commands = [], isValid = False, errors = [e] \<rparr>
           | Inr cs \<Rightarrow> \<lparr> commands = cs, isValid = True, errors = [] \<rparr>))"



subsection \<open>Facts about the parser\<close>

lemma parseArguments_stop:
  "peekType ts = CLOSE_PAREN \<or> isAtEnd ts \<Longrightarrow> parseArguments args ts = Inr (args, ts)"
  by (auto simp: parseArguments.simps [of args ts])

lemma parseArguments_step:
  "peekType ts \<noteq> CLOSE_PAREN \<Longrightarrow> \<not> isAtEnd ts \<Longrightarrow>
   parseArguments args ts =
     (case parseArgument (hd ts) (tl ts) of
        Inl e \<Rightarrow> Inl e
      | Inr (arg, r) \<Rightarrow>
          if peekType r = COMMA then parseArguments (args @ [arg]) (tl r)
          else if peekType r \<noteq> CLOSE_PAREN then Inl ''Expected ',' or ')' in function arguments''
          else parseArguments (args @ [arg]) r)"
  by (simp add: parseArguments.simps [of args ts])

lemma parseCommands_end: "isAtEnd ts \<Longrightarrow> parseCommands acc ts = Inr acc"
  by (simp add: parseCommands.simps [of acc ts])

lemma parseCommands_step:
  "\<not> isAtEnd ts \<Longrightarrow>
   parseCommands acc ts =
     (case parseCommand (hd ts) (tl ts) of
        Inl e \<Rightarrow> Inl e
      | Inr (command, r) \<Rightarrow>
          parseCommands (acc @ [command]) (if peekType r = PIPE then tl r else r))"
  by (simp add: parseCommands.simps [of acc ts])









section \<open>Values of the host language\<close>

text \<open>
  The pipeline threads arbitrary JavaScript values. The model keeps the shapes the
  engine and the built-in commands distinguish: \<open>undefined\<close>, \<open>null\<close>, booleans,
  finite numbers, strings, arrays, objects and function values. An object carries its
  class (\<open>instanceof Element\<close>, \<open>instanceof Document\<close>, or neither) and the table
  of every member visible through the \<open>in\<close> operator, own or inherited. Strings are
  lists of 8-bit characters.
\<close>

datatype objclass = PlainObject | ElementNode | DocumentNode

datatype jsvalue =
    Undefined
  | Null
  | Bool bool
  | Num real
  | Str string
  | Arr "jsvalue list"
  | Obj objclass "(string \<times> jsvalue) list"
  | Fn string

fun typeof :: "jsvalue \<Rightarrow> string" where
  "typeof Undefined = ''undefined''"
| "typeof Null = ''object''"
| "typeof (Bool b) = ''boolean''"
| "typeof (Num n) = ''number''"
| "typeof (Str s) = ''string''"
| "typeof (Arr xs) = ''object''"
| "typeof (Obj c ps) = ''object''"
| "typeof (Fn f) = ''function''"

fun truthy :: "jsvalue \<Rightarrow> bool" where
  "truthy Undefined = False"
| "truthy Null = False"
| "truthy (Bool b) = b"
| "truthy (Num n) = (n \<noteq> 0)"
| "truthy (Str s) = (s \<noteq> [])"
| "truthy (Arr xs) = True"
| "truthy (Obj c ps) = True"
| "truthy (Fn f) = True"

fun isArray :: "jsvalue \<Rightarrow> bool" where
  "isArray (Arr xs) = True"
| "isArray v = False"

fun isElement :: "jsvalue \<Rightarrow> bool" where
  "isElement (Obj c ps) = (c = ElementNode)"
| "isElement v = False"

fun isDocument :: "jsvalue \<Rightarrow> bool" where
  "isDocument (Obj c ps) = (c = DocumentNode)"
| "isDocument v = False"

section \<open>Cache (src/core/cache.ts)\<close>

text \<open>
  \<open>Date.now()\<close> is a parameter \<open>now\<close> of every operation that reads the clock.
  An optional numeric argument is an \<open>int option\<close>; the falsy numbers are \<open>0\<close>
  and the absent argument.
\<close>

record CacheEntry =
  entryValue :: jsvalue
  timestamp :: int
  ttl :: int
  hits :: nat

record Cache =
  store :: "string \<rightharpoonup> CacheEntry"
  defaultTTL :: int

definition newCache :: "int option \<Rightarrow> Cache" where
  "newCache d =
     \<lparr> store = Map.empty,
       defaultTTL = (case d of None \<Rightarrow> 60000 | Some t \<Rightarrow> if t \<noteq> 0 then t else 60000) \<rparr>"

definition cacheSet :: "Cache \<Rightarrow> string \<Rightarrow> jsvalue \<Rightarrow> int option \<Rightarrow> int \<Rightarrow> Cache" where
  "cacheSet c key v t now =
     c\<lparr> store := (store c)(key \<mapsto>
          \<lparr> entryValue = v,
            timestamp = now,
            ttl = (case t of None \<Rightarrow> defaultTTL c | Some n \<Rightarrow> if n \<noteq> 0 then n else defaultTTL c),
            hits = 0 \<rparr>) \<rparr>"

definition cacheGet :: "Cache \<Rightarrow> string \<Rightarrow> int \<Rightarrow> jsvalue \<times> Cache" where
  "cacheGet c key now =
     (case store c key of
        None \<Rightarrow> (Null, c)
      | Some e \<Rightarrow>
          if now - timestamp e > ttl e then (Null, c\<lparr> store := (store c)(key := None) \<rparr>)
          else (entryValue e, c\<lparr> store := (store c)(key \<mapsto> e\<lparr> hits := hits e + 1 \<rparr>) \<rparr>))"

section \<open>Errors (src/core/errors.ts)\<close>

datatype errclass =
  ParseError | ExecutionError | ValidationError | TimeoutError | PluginError | NativeError

record SuperSelectorError =
  errClass :: errclass
  message :: string

fun errorCode :: "errclass \<Rightarrow> string option" where
  "errorCode ParseError = Some ''PARSE_ERROR''"
| "errorCode ExecutionError = Some ''EXECUTION_ERROR''"
| "errorCode ValidationError = Some ''VALIDATION_ERROR''"
| "errorCode TimeoutError = Some ''TIMEOUT_ERROR''"
| "errorCode PluginError = Some ''PLUGIN_ERROR''"
| "errorCode NativeError = None"

definition executionError :: "string \<Rightarrow> SuperSelectorError" where
  "executionError msg = \<lparr> errClass = ExecutionError, message = msg \<rparr>"

definition validationError :: "string \<Rightarrow> SuperSelectorError" where
  "validationError msg = \<lparr> errClass = ValidationError, message = msg \<rparr>"

type_synonym thrown = "SuperSelectorError option"

definition thrownMessage :: "thrown \<Rightarrow> string" where
  "thrownMessage t = (case t of Some e \<Rightarrow> message e | None \<Rightarrow> ''undefined'')"

section \<open>Configuration, context and host\<close>

datatype ErrorHandling = Throw | ReturnNull | ReturnDefault

record SuperSelectorConfig =
  debug :: bool
  timeout :: int
  maxDepth :: int
  cacheEnabled :: bool
  cacheTTL :: int
  errorHandling :: ErrorHandling
  defaultValue :: jsvalue

record ExecutionContext =
  element :: jsvalue
  currentValue :: jsvalue
  config :: SuperSelectorConfig
  hadSoftError :: bool
  softError :: "SuperSelectorError option"

record Host =
  querySelectorAll :: "jsvalue \<Rightarrow> string \<Rightarrow> string + jsvalue list"
  inherited :: "jsvalue \<Rightarrow> string \<Rightarrow> jsvalue option"
  callMethod :: "jsvalue \<Rightarrow> string \<Rightarrow> jsvalue list \<Rightarrow> string + jsvalue"
  toNumber :: "string \<Rightarrow> real option"
  newRegExp :: "string \<Rightarrow> (string \<Rightarrow> bool) option"
  toLowerCase :: "string \<Rightarrow> string"
  toText :: "jsvalue \<Rightarrow> string"
  stringifyArgs :: "jsvalue list \<Rightarrow> string"
  stringifyCommands :: "Command list \<Rightarrow> string"

definition member :: "Host \<Rightarrow> jsvalue \<Rightarrow> string \<Rightarrow> jsvalue option" where
  "member h v name = (case v of Obj c ps \<Rightarrow> map_of ps name | _ \<Rightarrow> inherited h v name)"

definition hasProperty :: "Host \<Rightarrow> jsvalue \<Rightarrow> string \<Rightarrow> bool" where
  "hasProperty h v name = (member h v name \<noteq> None)"

definition getProperty :: "Host \<Rightarrow> jsvalue \<Rightarrow> string \<Rightarrow> jsvalue" where
  "getProperty h v name = (case member h v name of Some x \<Rightarrow> x | None \<Rightarrow> Undefined)"

definition bearsProperty :: "Host \<Rightarrow> jsvalue \<Rightarrow> string \<Rightarrow> bool" where
  "bearsProperty h item name = (truthy item \<and> typeof item = ''object'' \<and> hasProperty h item name)"

type_synonym outcome = "(thrown + jsvalue) \<times> ExecutionContext"

definition resolveDefault :: "ExecutionContext \<Rightarrow> jsvalue" where
  "resolveDefault ctx =
     (if errorHandling (config ctx) = ReturnDefault then defaultValue (config ctx) else Null)"

definition recordSoftError :: "SuperSelectorError \<Rightarrow> ExecutionContext \<Rightarrow> ExecutionContext" where
  "recordSoftError e ctx =
     (if \<not> hadSoftError ctx then ctx\<lparr> hadSoftError := True, softError := Some e \<rparr> else ctx)"

definition softFail :: "SuperSelectorError \<Rightarrow> ExecutionContext \<Rightarrow> outcome" where
  "softFail e ctx =
     (let err = (if \<not> hadSoftError ctx then Some e else None);
          ctx' = recordSoftError e ctx
      in if errorHandling (config ctx') = Throw
         then (Inl (case err of Some x \<Rightarrow> Some x | None \<Rightarrow> softError ctx'), ctx')
         else (Inr (resolveDefault ctx'), ctx'))"

section \<open>Built-in commands (src/commands/built-in.ts)\<close>

record CommandHandler =
  execute :: "ExecutionContext \<Rightarrow> jsvalue list \<Rightarrow> outcome"
  validate :: "(jsvalue list \<Rightarrow> bool) option"

definition unvalidatedCall :: "ExecutionContext \<Rightarrow> outcome" where
  "unvalidatedCall ctx = (Inl (Some \<lparr> errClass = NativeError, message = ''TypeError'' \<rparr>), ctx)"

fun queryEach :: "Host \<Rightarrow> string \<Rightarrow> jsvalue list \<Rightarrow> jsvalue list \<Rightarrow> string + jsvalue list" where
  "queryEach h selector [] results = Inr results"
| "queryEach h selector (item # items) results =
     (if isElement item then
        (case querySelectorAll h item selector of
           Inl e \<Rightarrow> Inl e
         | Inr elements \<Rightarrow> queryEach h selector items (results @ elements))
      else queryEach h selector items results)"

definition cssSelectorExecute :: "Host \<Rightarrow> ExecutionContext \<Rightarrow> string \<Rightarrow> outcome" where
  "cssSelectorExecute h ctx selector =
     (if isElement (currentValue ctx) \<or> isDocument (currentValue ctx) then
        (case querySelectorAll h (currentValue ctx) selector of
           Inl e \<Rightarrow> (Inl (Some \<lparr> errClass = NativeError, message = e \<rparr>), ctx)
         | Inr elements \<Rightarrow>
             if length elements = 0 then (Inr Null, ctx)
             else (Inr (if length elements = 1 then hd elements else Arr elements), ctx))
      else
        (case currentValue ctx of
           Arr items \<Rightarrow>
             (case queryEach h selector items [] of
                Inl e \<Rightarrow> (Inl (Some \<lparr> errClass = NativeError, message = e \<rparr>), ctx)
              | Inr results \<Rightarrow> (Inr (if length results > 0 then Arr results else Null), ctx))
         | _ \<Rightarrow> (Inr Null, ctx)))"

definition propertyOfItem :: "Host \<Rightarrow> string \<Rightarrow> jsvalue \<Rightarrow> jsvalue" where
  "propertyOfItem h propertyName item =
     (if bearsProperty h item propertyName then getProperty h item propertyName else Null)"

definition itemLacksProperty :: "Host \<Rightarrow> string \<Rightarrow> jsvalue \<Rightarrow> bool" where
  "itemLacksProperty h propertyName item =
     (\<not> bearsProperty h item propertyName \<and> item \<noteq> Null \<and> item \<noteq> Undefined)"

definition propertyExecute :: "Host \<Rightarrow> ExecutionContext \<Rightarrow> string \<Rightarrow> outcome" where
  "propertyExecute h ctx propertyName =
     (if currentValue ctx = Null \<or> currentValue ctx = Undefined then
        softFail (executionError (''Cannot access property '' @ [CHR 0x27] @ propertyName
                    @ [CHR 0x27] @ '' on null or undefined value'')) ctx
      else
        (case currentValue ctx of
           Arr items \<Rightarrow>
             (let results = map (propertyOfItem h propertyName) items;
                  itemHadError = list_ex (itemLacksProperty h propertyName) items;
                  ctx' = (if itemHadError
                          then recordSoftError
                                 (executionError (''Property '' @ [CHR 0x27] @ propertyName @ [CHR 0x27]
                                    @ '' not found on one or more items in array'')) ctx
                          else ctx)
              in if list_all (\<lambda>r. r = Null) results \<and> length items > 0 then (Inr Null, ctx')
                 else (Inr (if length results > 0 then Arr results else Null), ctx'))
         | _ \<Rightarrow>
             if bearsProperty h (currentValue ctx) propertyName
             then (Inr (getProperty h (currentValue ctx) propertyName), ctx)
             else if truthy (currentValue ctx)
                     \<and> (typeof (currentValue ctx) = ''object'' \<or> typeof (currentValue ctx) = ''function'')
             then softFail (executionError (''Property '' @ [CHR 0x27] @ propertyName @ [CHR 0x27]
                              @ '' not found on target object.'')) ctx
             else (let ctx' = recordSoftError
                                (executionError (''Property '' @ [CHR 0x27] @ propertyName @ [CHR 0x27]
                                   @ '' could not be accessed.'')) ctx
                   in (Inr (resolveDefault ctx'), ctx'))))"

definition elementAt :: "jsvalue list \<Rightarrow> real \<Rightarrow> jsvalue" where
  "elementAt xs r = (if r = of_int \<lfloor>r\<rfloor> then xs ! nat \<lfloor>r\<rfloor> else Undefined)"

definition arrayAccessExecute :: "Host \<Rightarrow> ExecutionContext \<Rightarrow> real \<Rightarrow> outcome" where
  "arrayAccessExecute h ctx index =
     (case currentValue ctx of
        Arr items \<Rightarrow>
          (let actualIndex = (if index < 0 then real (length items) + index else index)
           in if actualIndex \<ge> 0 \<and> actualIndex < real (length items)
              then (Inr (elementAt items actualIndex), ctx)
              else softFail (executionError (''Index '' @ toText h (Num index)
                               @ '' out of bounds for array of length '' @ showNat (length items))) ctx)
      | _ \<Rightarrow>
          softFail (executionError (''Cannot apply array access to non-array type: ''
                      @ typeof (currentValue ctx))) ctx)"

function recursiveDescent ::
  "Host \<Rightarrow> ExecutionContext \<Rightarrow> string \<Rightarrow> real \<Rightarrow> nat \<Rightarrow> jsvalue \<Rightarrow> outcome" where
  "recursiveDescent h ctx propertyName numTimes i current =
     (if real i < numTimes then
        (if bearsProperty h current propertyName
         then recursiveDescent h ctx propertyName numTimes (Suc i) (getProperty h current propertyName)
         else softFail (executionError (''Recursive property '' @ [CHR 0x27] @ propertyName @ [CHR 0x27]
                          @ '' access failed at depth '' @ showNat (i + 1))) ctx)
      else (Inr current, ctx))"
  by pat_completeness auto
termination
proof (relation "measure (\<lambda>(h, ctx, p, n, i, c). nat \<lceil>n\<rceil> - i)", goal_cases)
  case 1
  show ?case by simp
next
  case (2 h ctx p n i c)
  then have "real i < of_int \<lceil>n\<rceil>" using le_of_int_ceiling [of n] by linarith
  then have "int i < \<lceil>n\<rceil>" by linarith
  then show ?case by simp
qed

declare recursiveDescent.simps [simp del]

definition numTimesOf :: "string + real \<Rightarrow> real option" where
  "numTimesOf timesArg =
     (case timesArg of
        Inl s \<Rightarrow> map_option real_of_int (parseInt s)
      | Inr n \<Rightarrow> Some n)"

definition recursivePropExecute ::
  "Host \<Rightarrow> ExecutionContext \<Rightarrow> string \<Rightarrow> string + real \<Rightarrow> outcome" where
  "recursivePropExecute h ctx propertyName timesArg =
     (let numTimes = numTimesOf timesArg
      in case numTimes of
           None \<Rightarrow> (Inr (currentValue ctx), ctx)
         | Some n \<Rightarrow>
             if n \<le> 0 then (Inr (currentValue ctx), ctx)
             else recursiveDescent h ctx propertyName n 0 (currentValue ctx))"

fun stringIncludes :: "string \<Rightarrow> string \<Rightarrow> bool" where
  "stringIncludes [] sub = (sub = [])"
| "stringIncludes (c # cs) sub = (take (length sub) (c # cs) = sub \<or> stringIncludes cs sub)"

definition hasStringProperty :: "Host \<Rightarrow> string \<Rightarrow> jsvalue \<Rightarrow> bool" where
  "hasStringProperty h propertyName item =
     (bearsProperty h item propertyName \<and> typeof (getProperty h item propertyName) = ''string'')"

definition checkItem :: "Host \<Rightarrow> (string \<Rightarrow> bool) \<Rightarrow> string \<Rightarrow> jsvalue \<Rightarrow> jsvalue" where
  "checkItem h test propertyName item =
     (if bearsProperty h item propertyName then
        (case getProperty h item propertyName of
           Str propValue \<Rightarrow> if test propValue then item else Null
         | _ \<Rightarrow> Null)
      else Null)"

definition filterByProperty ::
  "Host \<Rightarrow> string \<Rightarrow> (string \<Rightarrow> bool) \<Rightarrow> ExecutionContext \<Rightarrow> string \<Rightarrow> outcome" where
  "filterByProperty h commandName test ctx propertyName =
     (case currentValue ctx of
        Arr items \<Rightarrow>
          (let results = filter (\<lambda>r. r \<noteq> Null) (map (checkItem h test propertyName) items);
               ctx' = (if length results = 0 \<and> length items > 0
                          \<and> \<not> list_ex (hasStringProperty h propertyName) items
                       then recordSoftError
                              (executionError (''Property '' @ [CHR 0x27] @ propertyName @ [CHR 0x27]
                                 @ '' for '' @ [CHR 0x27] @ commandName @ [CHR 0x27]
                                 @ '' was not a string or not found on items.'')) ctx
                       else ctx)
           in (Inr (if length results > 0 then Arr results else Null), ctx'))
      | _ \<Rightarrow>
          (let result = checkItem h test propertyName (currentValue ctx)
           in if \<not> truthy result \<and> truthy (currentValue ctx) \<and> typeof (currentValue ctx) = ''object''
                 \<and> (\<not> hasProperty h (currentValue ctx) propertyName
                      \<or> typeof (getProperty h (currentValue ctx) propertyName) \<noteq> ''string'')
              then softFail (executionError (''Property '' @ [CHR 0x27] @ propertyName @ [CHR 0x27]
                               @ '' for '' @ [CHR 0x27] @ commandName @ [CHR 0x27]
                               @ '' was not a string or not found.'')) ctx
              else (Inr result, ctx)))"

definition propIncludesExecute :: "Host \<Rightarrow> ExecutionContext \<Rightarrow> string \<Rightarrow> string \<Rightarrow> outcome" where
  "propIncludesExecute h ctx propertyName searchString =
     filterByProperty h ''propIncludes'' (\<lambda>propValue. stringIncludes propValue searchString) ctx propertyName"

definition propIncludesLowercaseExecute ::
  "Host \<Rightarrow> ExecutionContext \<Rightarrow> string \<Rightarrow> string \<Rightarrow> outcome" where
  "propIncludesLowercaseExecute h ctx propertyName searchString =
     filterByProperty h ''propIncludesLowercase''
       (\<lambda>propValue. stringIncludes (toLowerCase h propValue) (toLowerCase h searchString)) ctx propertyName"

definition matchPropExecute :: "Host \<Rightarrow> ExecutionContext \<Rightarrow> string \<Rightarrow> string \<Rightarrow> outcome" where
  "matchPropExecute h ctx propertyName regexPattern =
     (case newRegExp h regexPattern of
        None \<Rightarrow>
          (let errRegex = validationError (''Invalid regex pattern: '' @ regexPattern)
           in if errorHandling (config ctx) = Throw then (Inl (Some errRegex), ctx)
              else (let ctx' = recordSoftError errRegex ctx in (Inr (resolveDefault ctx'), ctx')))
      | Some regexTest \<Rightarrow> filterByProperty h ''matchProp'' regexTest ctx propertyName)"

section \<open>Command registry (src/commands/registry.ts)\<close>

type_synonym CommandRegistry = "string \<rightharpoonup> CommandHandler"

definition registryExecute ::
  "Host \<Rightarrow> CommandRegistry \<Rightarrow> string \<Rightarrow> ExecutionContext \<Rightarrow> jsvalue list \<Rightarrow> outcome" where
  "registryExecute h registry name ctx args =
     (case registry name of
        None \<Rightarrow> (Inl (Some (executionError (''Unknown command: '' @ name))), ctx)
      | Some handler \<Rightarrow>
          if (case validate handler of Some v \<Rightarrow> \<not> v args | None \<Rightarrow> False)
          then (Inl (Some (validationError (''Invalid arguments for command '' @ [CHR 0x27] @ name
                             @ [CHR 0x27] @ '': '' @ stringifyArgs h args))), ctx)
          else
            (case execute handler ctx args of
               (Inl error, ctx') \<Rightarrow>
                 (Inl (Some (executionError (''Error executing command '' @ [CHR 0x27] @ name
                               @ [CHR 0x27] @ '': '' @ thrownMessage error))), ctx')
             | (Inr v, ctx') \<Rightarrow> (Inr v, ctx')))"

definition cssSelectorCommand :: "Host \<Rightarrow> CommandHandler" where
  "cssSelectorCommand h =
     \<lparr> execute = (\<lambda>ctx args. case args of
                                 [Str selector] \<Rightarrow> cssSelectorExecute h ctx selector
                               | _ \<Rightarrow> unvalidatedCall ctx),
       validate = Some (\<lambda>args. length args = 1 \<and> typeof (args ! 0) = ''string'') \<rparr>"

definition propertyCommand :: "Host \<Rightarrow> CommandHandler" where
  "propertyCommand h =
     \<lparr> execute = (\<lambda>ctx args. case args of
                                 [Str propertyName] \<Rightarrow> propertyExecute h ctx propertyName
                               | _ \<Rightarrow> unvalidatedCall ctx),
       validate = Some (\<lambda>args. length args = 1 \<and> typeof (args ! 0) = ''string'') \<rparr>"

definition arrayAccessCommand :: "Host \<Rightarrow> CommandHandler" where
  "arrayAccessCommand h =
     \<lparr> execute = (\<lambda>ctx args. case args of
                                 [Num index] \<Rightarrow> arrayAccessExecute h ctx index
                               | _ \<Rightarrow> unvalidatedCall ctx),
       validate = Some (\<lambda>args. length args = 1 \<and> typeof (args ! 0) = ''number'') \<rparr>"

definition getPropCommand :: "Host \<Rightarrow> CommandHandler" where
  "getPropCommand h =
     \<lparr> execute = (\<lambda>ctx args. execute (propertyCommand h) ctx args),
       validate = Some (\<lambda>args. length args = 1 \<and> typeof (args ! 0) = ''string'') \<rparr>"

definition recursivePropCommand :: "Host \<Rightarrow> CommandHandler" where
  "recursivePropCommand h =
     \<lparr> execute = (\<lambda>ctx args. case args of
                                 [Str propertyName] \<Rightarrow> recursivePropExecute h ctx propertyName (Inr 1)
                               | [Str propertyName, Str t] \<Rightarrow>
                                   recursivePropExecute h ctx propertyName (Inl t)
                               | [Str propertyName, Num n] \<Rightarrow>
                                   recursivePropExecute h ctx propertyName (Inr n)
                               | _ \<Rightarrow> unvalidatedCall ctx),
       validate = Some (\<lambda>args. length args \<ge> 1 \<and> length args \<le> 2 \<and> typeof (args ! 0) = ''string''
                                \<and> (length args = 1 \<or> typeof (args ! 1) = ''string''
                                     \<or> typeof (args ! 1) = ''number'')) \<rparr>"

definition propIncludesCommand :: "Host \<Rightarrow> CommandHandler" where
  "propIncludesCommand h =
     \<lparr> execute = (\<lambda>ctx args. case args of
                                 [Str propertyName, Str searchString] \<Rightarrow>
                                   propIncludesExecute h ctx propertyName searchString
                               | _ \<Rightarrow> unvalidatedCall ctx),
       validate = Some (\<lambda>args. length args = 2 \<and> typeof (args ! 0) = ''string''
                                \<and> typeof (args ! 1) = ''string'') \<rparr>"

definition propIncludesLowercaseCommand :: "Host \<Rightarrow> CommandHandler" where
  "propIncludesLowercaseCommand h =
     \<lparr> execute = (\<lambda>ctx args. case args of
                                 [Str propertyName, Str searchString] \<Rightarrow>
                                   propIncludesLowercaseExecute h ctx propertyName searchString
                               | _ \<Rightarrow> unvalidatedCall ctx),
       validate = Some (\<lambda>args. length args = 2 \<and> typeof (args ! 0) = ''string''
                                \<and> typeof (args ! 1) = ''string'') \<rparr>"

definition matchPropCommand :: "Host \<Rightarrow> CommandHandler" where
  "matchPropCommand h =
     \<lparr> execute = (\<lambda>ctx args. case args of
                                 [Str propertyName, Str regexPattern] \<Rightarrow>
                                   matchPropExecute h ctx propertyName regexPattern
                               | _ \<Rightarrow> unvalidatedCall ctx),
       validate = Some (\<lambda>args. length args = 2 \<and> typeof (args ! 0) = ''string''
                                \<and> typeof (args ! 1) = ''string'') \<rparr>"

definition registerBuiltInCommands :: "Host \<Rightarrow> CommandRegistry" where
  "registerBuiltInCommands h =
     Map.empty
       (''css-selector'' \<mapsto> cssSelectorCommand h,
        ''property'' \<mapsto> propertyCommand h,
        ''array-access'' \<mapsto> arrayAccessCommand h,
        ''getProp'' \<mapsto> getPropCommand h,
        ''p'' \<mapsto> getPropCommand h,
        ''recursiveProp'' \<mapsto> recursivePropCommand h,
        ''propIncludes'' \<mapsto> propIncludesCommand h,
        ''propIncludesLowercase'' \<mapsto> propIncludesLowercaseCommand h,
        ''matchProp'' \<mapsto> matchPropCommand h)"

section \<open>Execution engine (src/core/execution-engine.ts)\<close>

record ExecutionResult =
  success :: bool
  resultValue :: jsvalue
  resultError :: "SuperSelectorError option"
  commandsExecuted :: nat
  cacheHit :: bool

fun commandName :: "Command \<Rightarrow> string" where
  "commandName (CssSelectorCmd selector) = ''css-selector''"
| "commandName (FunctionCmd name args) = name"
| "commandName (PropertyCmd name) = name"
| "commandName (ArrayAccessCmd index) = ''array-access''"

definition isNativeMethod :: "Host \<Rightarrow> jsvalue \<Rightarrow> string \<Rightarrow> bool" where
  "isNativeMethod h v methodName =
     (if v = Null \<or> v = Undefined \<or> (typeof v \<noteq> ''object'' \<and> typeof v \<noteq> ''function'') then False
      else typeof (getProperty h v methodName) = ''function'')"

definition convertArg :: "Host \<Rightarrow> string \<Rightarrow> jsvalue" where
  "convertArg h arg =
     (if arg = ''true'' then Bool True
      else if arg = ''false'' then Bool False
      else (case toNumber h arg of
              Some num \<Rightarrow> if trim arg \<noteq> [] then Num num else Str arg
            | None \<Rightarrow> Str arg))"

definition executeNativeMethod :: "Host \<Rightarrow> jsvalue \<Rightarrow> string \<Rightarrow> string list \<Rightarrow> thrown + jsvalue" where
  "executeNativeMethod h v methodName args =
     (case callMethod h v methodName (map (convertArg h) args) of
        Inl e \<Rightarrow> Inl (Some (executionError (''Error calling native method '' @ [CHR 0x27] @ methodName
                                @ [CHR 0x27] @ '': '' @ e)))
      | Inr result \<Rightarrow> Inr result)"

definition executeCommand :: "Host \<Rightarrow> CommandRegistry \<Rightarrow> Command \<Rightarrow> ExecutionContext \<Rightarrow> outcome" where
  "executeCommand h registry command ctx =
     (case command of
        CssSelectorCmd selector \<Rightarrow> registryExecute h registry ''css-selector'' ctx [Str selector]
      | FunctionCmd name args \<Rightarrow>
          if currentValue ctx = Null \<or> currentValue ctx = Undefined then
            softFail (executionError (''Cannot call method '' @ [CHR 0x27] @ name @ [CHR 0x27]
                        @ '' on null or undefined value'')) ctx
          else if isNativeMethod h (currentValue ctx) name then
            (executeNativeMethod h (currentValue ctx) name args, ctx)
          else if registry name \<noteq> None then
            registryExecute h registry name ctx (map Str args)
          else softFail (executionError (''Unknown method or command: '' @ name)) ctx
      | PropertyCmd name \<Rightarrow> registryExecute h registry ''property'' ctx [Str name]
      | ArrayAccessCmd index \<Rightarrow>
          registryExecute h registry ''array-access'' ctx [Num (real_of_int index)])"

fun runCommands ::
  "Host \<Rightarrow> CommandRegistry \<Rightarrow> Command list \<Rightarrow> jsvalue \<Rightarrow> ExecutionContext \<Rightarrow> outcome" where
  "runCommands h registry [] current ctx = (Inr current, ctx)"
| "runCommands h registry (command # later) current ctx =
     (case executeCommand h registry command (ctx\<lparr> currentValue := current \<rparr>) of
        (Inl error, ctx') \<Rightarrow> (Inl error, ctx')
      | (Inr v, ctx') \<Rightarrow>
          if v = Undefined \<and> \<not> hadSoftError ctx' \<and> later \<noteq> [] then
            (let err = executionError (''Command '' @ [CHR 0x27] @ commandName command @ [CHR 0x27]
                         @ '' resulted in undefined, breaking execution chain.'')
             in if errorHandling (config ctx') = Throw then (Inl (Some err), ctx')
                else runCommands h registry later (resolveDefault ctx')
                       (ctx'\<lparr> hadSoftError := True, softError := Some err \<rparr>))
          else runCommands h registry later v ctx')"

definition executeCommands ::
  "Host \<Rightarrow> CommandRegistry \<Rightarrow> int \<Rightarrow> Command list \<Rightarrow> ExecutionContext \<Rightarrow> outcome" where
  "executeCommands h registry executionDepth cmds ctx =
     (if executionDepth > maxDepth (config ctx)
      then (Inl (Some (executionError (''Maximum execution depth exceeded: ''
                         @ showInt (maxDepth (config ctx))))), ctx)
      else runCommands h registry cmds (currentValue ctx) ctx)"

definition generateCacheKey :: "Host \<Rightarrow> Command list \<Rightarrow> jsvalue \<Rightarrow> string" where
  "generateCacheKey h cmds el =
     stringifyCommands h cmds @ '':''
       @ (if isElement el
          then (if truthy (getProperty h el ''id'') then toText h (getProperty h el ''id'')
                else toText h (getProperty h el ''tagName'') @ toText h (getProperty h el ''className''))
          else ''document'')"

definition engineExecute ::
  "Host \<Rightarrow> CommandRegistry \<Rightarrow> Cache \<Rightarrow> int \<Rightarrow> Command list \<Rightarrow> jsvalue \<Rightarrow> SuperSelectorConfig
     \<Rightarrow> ExecutionResult \<times> Cache" where
  "engineExecute h registry cache now cmds el cfg =
     (let ctx = \<lparr> element = el, currentValue = el, config = cfg,
                  hadSoftError = False, softError = None \<rparr>;
          cacheKey = generateCacheKey h cmds el;
          (cachedResult, cache1) = (if cacheEnabled cfg then cacheGet cache cacheKey now else (Null, cache))
      in if cacheEnabled cfg \<and> cachedResult \<noteq> Null then
           (\<lparr> success = True, resultValue = cachedResult, resultError = None,
               commandsExecuted = 0, cacheHit = True \<rparr>, cache1)
         else
           (case executeCommands h registry 0 cmds ctx of
              (Inr computed, ctx') \<Rightarrow>
                (\<lparr> success = \<not> hadSoftError ctx', resultValue = computed,
                    resultError = (if hadSoftError ctx' then softError ctx' else None),
                    commandsExecuted = length cmds, cacheHit = False \<rparr>,
                 if cacheEnabled cfg \<and> computed \<noteq> Null \<and> \<not> hadSoftError ctx'
                 then cacheSet cache1 cacheKey computed (Some (cacheTTL cfg)) now
                 else cache1)
            | (Inl error, ctx') \<Rightarrow>
                (\<lparr> success = False,
                    resultValue = (if errorHandling cfg = ReturnDefault
                                      \<and> \<not> (case error of Some e \<Rightarrow> errClass e = TimeoutError | None \<Rightarrow> False)
                                   then defaultValue cfg else Null),
                    resultError = Some (case error of
                                          Some e \<Rightarrow> if errorCode (errClass e) \<noteq> None then e
                                                    else executionError (message e)
                                        | None \<Rightarrow> executionError ''undefined''),
                    commandsExecuted = 0, cacheHit = False \<rparr>,
                 cache1)))"

definition fixtureHost :: Host where
  "fixtureHost =
     \<lparr> querySelectorAll = (\<lambda>v selector.
          if selector = ''items''
          then Inr [Obj PlainObject [(''id'', Num 1)], Obj PlainObject [(''id'', Num 2)], Obj PlainObject []]
          else if selector = ''div.content''
          then Inr [Obj ElementNode [(''textContent'', Str ''  Hello '')]]
          else Inr []),
       inherited = (\<lambda>v name. case v of
                                 Str s \<Rightarrow> if name = ''trim'' then Some (Fn ''trim'') else None
                               | _ \<Rightarrow> None),
       callMethod = (\<lambda>v name args. case v of
                                 Str s \<Rightarrow> if name = ''trim'' then Inr (Str (trim s)) else Inl ''not a function''
                               | _ \<Rightarrow> Inl ''not a function''),
       toNumber = (\<lambda>s. if s \<noteq> [] \<and> list_all isDigit s then Some (real (digitValue s)) else None),
       newRegExp = (\<lambda>pattern. if pattern = ''('' then None else Some (\<lambda>s. stringIncludes s pattern)),
       toLowerCase = (\<lambda>s. s),
       toText = (\<lambda>v. case v of Str s \<Rightarrow> s | Num r \<Rightarrow> showInt \<lfloor>r\<rfloor> | _ \<Rightarrow> []),
       stringifyArgs = (\<lambda>args. concat (map typeof args)),
       stringifyCommands = (\<lambda>cmds. concat (map commandName cmds)) \<rparr>"

definition fixtureConfig :: "ErrorHandling \<Rightarrow> SuperSelectorConfig" where
  "fixtureConfig mode =
     \<lparr> debug = False, timeout = 5000, maxDepth = 50, cacheEnabled = True, cacheTTL = 60000,
       errorHandling = mode, defaultValue = Str ''N/A'' \<rparr>"

definition fixtureContext :: "ErrorHandling \<Rightarrow> jsvalue \<Rightarrow> ExecutionContext" where
  "fixtureContext mode v =
     \<lparr> element = Obj DocumentNode [], currentValue = v, config = fixtureConfig mode,
       hadSoftError = False, softError = None \<rparr>"

subsection \<open>Facts about recording and resolving a soft error\<close>

lemma recordSoftError_flagged [simp]: "hadSoftError (recordSoftError e ctx)"
  by (simp add: recordSoftError_def)

lemma recordSoftError_idle: "hadSoftError ctx \<Longrightarrow> recordSoftError e ctx = ctx"
  by (simp add: recordSoftError_def)

lemma recordSoftError_first: "\<not> hadSoftError ctx \<Longrightarrow> softError (recordSoftError e ctx) = Some e"
  by (simp add: recordSoftError_def)

lemma recordSoftError_fields [simp]:
  "config (recordSoftError e ctx) = config ctx"
  "currentValue (recordSoftError e ctx) = currentValue ctx"
  "element (recordSoftError e ctx) = element ctx"
  by (simp_all add: recordSoftError_def)

lemma resolveDefault_recordSoftError [simp]:
  "resolveDefault (recordSoftError e ctx) = resolveDefault ctx"
  by (simp add: resolveDefault_def)

lemma softFail_eq:
  "softFail e ctx =
     (if errorHandling (config ctx) = Throw
      then (Inl (if hadSoftError ctx then softError ctx else Some e), recordSoftError e ctx)
      else (Inr (resolveDefault ctx), recordSoftError e ctx))"
  by (simp add: softFail_def Let_def recordSoftError_def resolveDefault_def)

lemma snd_softFail [simp]: "snd (softFail e ctx) = recordSoftError e ctx"
  by (simp add: softFail_eq)

definition stageFailure :: "string \<Rightarrow> SuperSelectorError \<Rightarrow> ExecutionContext \<Rightarrow> outcome" where
  "stageFailure name e ctx =
     (case errorHandling (config ctx) of
        Throw \<Rightarrow>
          (Inl (Some (executionError (''Error executing command '' @ [CHR 0x27] @ name @ [CHR 0x27]
                        @ '': '' @ thrownMessage (if hadSoftError ctx then softError ctx else Some e)))),
           recordSoftError e ctx)
      | ReturnNull \<Rightarrow> (Inr Null, recordSoftError e ctx)
      | ReturnDefault \<Rightarrow> (Inr (defaultValue (config ctx)), recordSoftError e ctx))"

lemma wrapped_softFail:
  "(case softFail e ctx of
      (Inl error, ctx') \<Rightarrow>
        (Inl (Some (executionError (''Error executing command '' @ [CHR 0x27] @ name
                      @ [CHR 0x27] @ '': '' @ thrownMessage error))), ctx')
    | (Inr r, ctx') \<Rightarrow> (Inr r, ctx'))
   = stageFailure name e ctx"
  by (cases "errorHandling (config ctx)") (simp_all add: softFail_eq stageFailure_def resolveDefault_def)

lemma builtIn_lookup:
  "registerBuiltInCommands h ''css-selector'' = Some (cssSelectorCommand h)"
  "registerBuiltInCommands h ''property'' = Some (propertyCommand h)"
  "registerBuiltInCommands h ''array-access'' = Some (arrayAccessCommand h)"
  "registerBuiltInCommands h ''getProp'' = Some (getPropCommand h)"
  "registerBuiltInCommands h ''p'' = Some (getPropCommand h)"
  "registerBuiltInCommands h ''recursiveProp'' = Some (recursivePropCommand h)"
  "registerBuiltInCommands h ''propIncludes'' = Some (propIncludesCommand h)"
  "registerBuiltInCommands h ''propIncludesLowercase'' = Some (propIncludesLowercaseCommand h)"
  "registerBuiltInCommands h ''matchProp'' = Some (matchPropCommand h)"
  by (simp_all add: registerBuiltInCommands_def)

subsection \<open>Indexed access\<close>

definition outOfBounds :: "Host \<Rightarrow> int \<Rightarrow> nat \<Rightarrow> SuperSelectorError" where
  "outOfBounds h i n =
     executionError (''Index '' @ toText h (Num (real_of_int i))
        @ '' out of bounds for array of length '' @ showNat n)"

definition notAnArray :: "jsvalue \<Rightarrow> SuperSelectorError" where
  "notAnArray v = executionError (''Cannot apply array access to non-array type: '' @ typeof v)"

lemma elementAt_int: "0 \<le> k \<Longrightarrow> elementAt xs (real_of_int k) = xs ! nat k"
  by (simp add: elementAt_def)

lemma arrayAccessExecute_int:
  assumes "currentValue ctx = Arr xs"
  shows "arrayAccessExecute h ctx (real_of_int i) =
           (if 0 \<le> (if i < 0 then int (length xs) + i else i)
               \<and> (if i < 0 then int (length xs) + i else i) < int (length xs)
            then (Inr (xs ! nat (if i < 0 then int (length xs) + i else i)), ctx)
            else softFail (outOfBounds h i (length xs)) ctx)"
proof -
  let ?k = "if i < 0 then int (length xs) + i else i"
  have actual: "(if real_of_int i < 0 then real (length xs) + real_of_int i else real_of_int i)
                = real_of_int ?k"
    by simp
  have range: "(0 \<le> real_of_int ?k \<and> real_of_int ?k < real (length xs))
               = (0 \<le> ?k \<and> ?k < int (length xs))"
    by (metis of_int_0_le_iff of_int_less_iff of_int_of_nat_eq)
  show ?thesis
    unfolding arrayAccessExecute_def assms jsvalue.case Let_def actual range outOfBounds_def
    by (simp add: elementAt_int)
qed

lemma arrayAccess_stage:
  "executeCommand h (registerBuiltInCommands h) (ArrayAccessCmd i) ctx =
     (case arrayAccessExecute h ctx (real_of_int i) of
        (Inl error, ctx') \<Rightarrow>
          (Inl (Some (executionError (''Error executing command '' @ [CHR 0x27] @ ''array-access''
                        @ [CHR 0x27] @ '': '' @ thrownMessage error))), ctx')
      | (Inr r, ctx') \<Rightarrow> (Inr r, ctx'))"
  by (simp add: executeCommand_def registryExecute_def builtIn_lookup arrayAccessCommand_def)

section \<open>Tokenizer: a bare word is a selector only as the first token\<close>



section \<open>Parser: failures are returned, never thrown\<close>




section \<open>Cache: a zero time-to-live falls back to the default\<close>



section \<open>Indexed access: negative indices and failures\<close>

lemma arrayAccess_not_array:
  assumes "\<not> isArray (currentValue ctx)"
  shows "arrayAccessExecute h ctx r = softFail (notAnArray (currentValue ctx)) ctx"
  using assms by (cases "currentValue ctx") (simp_all add: arrayAccessExecute_def notAnArray_def)

text \<open>
  C6. For an array-access stage on an array \<open>xs\<close> of length \<open>N\<close>: index \<open>-1\<close>
  yields element \<open>N - 1\<close>, a negative index \<open>i\<close> with \<open>0 \<le> N + i\<close> yields element
  \<open>N + i\<close>, and an index in \<open>0 .. N - 1\<close> yields that element, with the context left
  as it was. Index \<open>N\<close> (like every index outside \<open>-N .. N - 1\<close>) and a current value
  that is not an array make the stage fail softly: the error is recorded unless an earlier
  one is stored, and the stage yields \<open>null\<close>, the configured default, or, in throw
  mode, throws (\<open>stageFailure\<close> spells the three modes out).
\<close>

theorem C6_array_access:
  "(currentValue ctx = Arr xs \<and> xs \<noteq> [] \<longrightarrow>
      executeCommand h (registerBuiltInCommands h) (ArrayAccessCmd (- 1)) ctx
        = (Inr (xs ! (length xs - 1)), ctx))
   \<and> (currentValue ctx = Arr xs \<and> i < 0 \<and> 0 \<le> int (length xs) + i \<longrightarrow>
      executeCommand h (registerBuiltInCommands h) (ArrayAccessCmd i) ctx
        = (Inr (xs ! nat (int (length xs) + i)), ctx))
   \<and> (currentValue ctx = Arr xs \<and> 0 \<le> i \<and> i < int (length xs) \<longrightarrow>
      executeCommand h (registerBuiltInCommands h) (ArrayAccessCmd i) ctx
        = (Inr (xs ! nat i), ctx))
   \<and> (currentValue ctx = Arr xs \<longrightarrow>
      executeCommand h (registerBuiltInCommands h) (ArrayAccessCmd (int (length xs))) ctx
        = stageFailure ''array-access'' (outOfBounds h (int (length xs)) (length xs)) ctx)
   \<and> (currentValue ctx = Arr xs \<and> (int (length xs) \<le> i \<or> i < - int (length xs)) \<longrightarrow>
      executeCommand h (registerBuiltInCommands h) (ArrayAccessCmd i) ctx
        = stageFailure ''array-access'' (outOfBounds h i (length xs)) ctx)
   \<and> (\<not> isArray (currentValue ctx) \<longrightarrow>
      executeCommand h (registerBuiltInCommands h) (ArrayAccessCmd i) ctx
        = stageFailure ''array-access'' (notAnArray (currentValue ctx)) ctx)"
proof (intro conjI impI)
  assume a: "currentValue ctx = Arr xs \<and> xs \<noteq> []"
  then have n: "nat (int (length xs) + - 1) = length xs - 1" "0 \<le> int (length xs) + - 1"
    by (cases xs; auto)+
  from a have cv: "currentValue ctx = Arr xs" by simp
  have "arrayAccessExecute h ctx (real_of_int (- 1)) = (Inr (xs ! (length xs - 1)), ctx)"
    unfolding arrayAccessExecute_int [OF cv, of h "- 1"] using n by simp
  then show "executeCommand h (registerBuiltInCommands h) (ArrayAccessCmd (- 1)) ctx
        = (Inr (xs ! (length xs - 1)), ctx)"
    by (simp add: arrayAccess_stage)
next
  assume "currentValue ctx = Arr xs \<and> i < 0 \<and> 0 \<le> int (length xs) + i"
  then show "executeCommand h (registerBuiltInCommands h) (ArrayAccessCmd i) ctx
        = (Inr (xs ! nat (int (length xs) + i)), ctx)"
    by (simp add: arrayAccess_stage arrayAccessExecute_int [of ctx xs h i])
next
  assume "currentValue ctx = Arr xs \<and> 0 \<le> i \<and> i < int (length xs)"
  then show "executeCommand h (registerBuiltInCommands h) (ArrayAccessCmd i) ctx = (Inr (xs ! nat i), ctx)"
    by (simp add: arrayAccess_stage arrayAccessExecute_int [of ctx xs h i])
next
  assume a: "currentValue ctx = Arr xs"
  have "arrayAccessExecute h ctx (real_of_int (int (length xs)))
        = softFail (outOfBounds h (int (length xs)) (length xs)) ctx"
    unfolding arrayAccessExecute_int [OF a, of h "int (length xs)"] by simp
  then show "executeCommand h (registerBuiltInCommands h) (ArrayAccessCmd (int (length xs))) ctx
        = stageFailure ''array-access'' (outOfBounds h (int (length xs)) (length xs)) ctx"
    by (simp add: arrayAccess_stage wrapped_softFail)
next
  assume a: "currentValue ctx = Arr xs \<and> (int (length xs) \<le> i \<or> i < - int (length xs))"
  then have "\<not> (0 \<le> (if i < 0 then int (length xs) + i else i)
               \<and> (if i < 0 then int (length xs) + i else i) < int (length xs))"
    by auto
  with a show "executeCommand h (registerBuiltInCommands h) (ArrayAccessCmd i) ctx
        = stageFailure ''array-access'' (outOfBounds h i (length xs)) ctx"
    by (simp only: arrayAccess_stage arrayAccessExecute_int [of ctx xs h i] if_False wrapped_softFail)
next
  assume "\<not> isArray (currentValue ctx)"
  then show "executeCommand h (registerBuiltInCommands h) (ArrayAccessCmd i) ctx
        = stageFailure ''array-access'' (notAnArray (currentValue ctx)) ctx"
    by (simp add: arrayAccess_stage arrayAccess_not_array wrapped_softFail)
qed

theorem C6_array_access_witness:
  "executeCommand fixtureHost (registerBuiltInCommands fixtureHost) (ArrayAccessCmd (- 1))
      (fixtureContext ReturnNull (Arr [Str ''a'', Str ''b'', Str ''c'']))
     = (Inr (Str ''c''), fixtureContext ReturnNull (Arr [Str ''a'', Str ''b'', Str ''c'']))
   \<and> executeCommand fixtureHost (registerBuiltInCommands fixtureHost) (ArrayAccessCmd 3)
      (fixtureContext ReturnDefault (Arr [Str ''a'', Str ''b'', Str ''c'']))
     = (Inr (Str ''N/A''),
        (fixtureContext ReturnDefault (Arr [Str ''a'', Str ''b'', Str ''c'']))
          \<lparr> hadSoftError := True,
            softError := Some (executionError ''Index 3 out of bounds for array of length 3'') \<rparr>)
   \<and> executeCommand fixtureHost (registerBuiltInCommands fixtureHost) (ArrayAccessCmd 0)
      (fixtureContext ReturnNull (Str ''abc''))
     = (Inr Null,
        (fixtureContext ReturnNull (Str ''abc''))
          \<lparr> hadSoftError := True,
            softError := Some (executionError ''Cannot apply array access to non-array type: string'') \<rparr>)"
proof -
  let ?xs = "[Str ''a'', Str ''b'', Str ''c'']"
  let ?R = "registerBuiltInCommands fixtureHost"
  have show3: "toText fixtureHost (Num 3) = ''3''" "showNat 3 = ''3''"
    by (simp_all add: fixtureHost_def showInt_def showNat.simps)
  have cv: "currentValue (fixtureContext mode v) = v" for mode v
    by (simp add: fixtureContext_def)
  from C6_array_access [where ctx = "fixtureContext ReturnNull (Arr ?xs)" and xs = ?xs
        and h = fixtureHost and i = 0]
  have first: "executeCommand fixtureHost ?R (ArrayAccessCmd (- 1)) (fixtureContext ReturnNull (Arr ?xs))
               = (Inr (Str ''c''), fixtureContext ReturnNull (Arr ?xs))"
    by (simp add: cv)
  from C6_array_access [where ctx = "fixtureContext ReturnDefault (Arr ?xs)" and xs = ?xs
        and h = fixtureHost and i = 0]
  have "executeCommand fixtureHost ?R (ArrayAccessCmd 3) (fixtureContext ReturnDefault (Arr ?xs))
        = stageFailure ''array-access'' (outOfBounds fixtureHost 3 3) (fixtureContext ReturnDefault (Arr ?xs))"
    by (simp add: cv numeral_3_eq_3)
  also have "\<dots> = (Inr (Str ''N/A''),
        (fixtureContext ReturnDefault (Arr ?xs))
          \<lparr> hadSoftError := True,
            softError := Some (executionError ''Index 3 out of bounds for array of length 3'') \<rparr>)"
    by (simp add: fixtureContext_def fixtureConfig_def stageFailure_def recordSoftError_def
          outOfBounds_def show3)
  finally have second: "executeCommand fixtureHost ?R (ArrayAccessCmd 3) (fixtureContext ReturnDefault (Arr ?xs))
        = (Inr (Str ''N/A''),
        (fixtureContext ReturnDefault (Arr ?xs))
          \<lparr> hadSoftError := True,
            softError := Some (executionError ''Index 3 out of bounds for array of length 3'') \<rparr>)" .
  from C6_array_access [where ctx = "fixtureContext ReturnNull (Str ''abc'')" and xs = "[]"
        and h = fixtureHost and i = 0]
  have "executeCommand fixtureHost ?R (ArrayAccessCmd 0) (fixtureContext ReturnNull (Str ''abc''))
        = stageFailure ''array-access'' (notAnArray (Str ''abc'')) (fixtureContext ReturnNull (Str ''abc''))"
    by (simp add: cv)
  also have "\<dots> = (Inr Null,
        (fixtureContext ReturnNull (Str ''abc''))
          \<lparr> hadSoftError := True,
            softError := Some (executionError ''Cannot apply array access to non-array type: string'') \<rparr>)"
    by (simp add: fixtureContext_def fixtureConfig_def stageFailure_def recordSoftError_def
          notAnArray_def)
  finally have third: "executeCommand fixtureHost ?R (ArrayAccessCmd 0) (fixtureContext ReturnNull (Str ''abc''))
        = (Inr Null,
        (fixtureContext ReturnNull (Str ''abc''))
          \<lparr> hadSoftError := True,
            softError := Some (executionError ''Cannot apply array access to non-array type: string'') \<rparr>)" .
  from first second third show ?thesis by (intro conjI)
qed

section \<open>Recursive property descent\<close>











section \<open>Property access over an array\<close>

definition itemsMissingError :: "string \<Rightarrow> SuperSelectorError" where
  "itemsMissingError p =
     executionError (''Property '' @ [CHR 0x27] @ p @ [CHR 0x27]
        @ '' not found on one or more items in array'')"

lemma propertyExecute_array:
  assumes "currentValue ctx = Arr items"
  shows "propertyExecute h ctx p =
           (Inr (if list_all (\<lambda>r. r = Null) (map (propertyOfItem h p) items) then Null
                 else Arr (map (propertyOfItem h p) items)),
            if list_ex (itemLacksProperty h p) items
            then recordSoftError (itemsMissingError p) ctx else ctx)"
proof (cases "items = []")
  case True
  with assms show ?thesis by (simp add: propertyExecute_def)
next
  case False
  then have "0 < length items" by simp
  with assms False show ?thesis
    by (simp add: propertyExecute_def Let_def itemsMissingError_def)
qed

lemma property_stage:
  "executeCommand h (registerBuiltInCommands h) (PropertyCmd p) ctx =
     (case propertyExecute h ctx p of
        (Inl error, ctx') \<Rightarrow>
          (Inl (Some (executionError (''Error executing command '' @ [CHR 0x27] @ ''property''
                        @ [CHR 0x27] @ '': '' @ thrownMessage error))), ctx')
      | (Inr r, ctx') \<Rightarrow> (Inr r, ctx'))"
  by (simp add: executeCommand_def registryExecute_def builtIn_lookup propertyCommand_def)

lemma getProp_stage:
  assumes "currentValue ctx \<noteq> Null" and "currentValue ctx \<noteq> Undefined"
    and "\<not> isNativeMethod h (currentValue ctx) ''getProp''"
  shows "executeCommand h (registerBuiltInCommands h) (FunctionCmd ''getProp'' [p]) ctx =
     (case propertyExecute h ctx p of
        (Inl error, ctx') \<Rightarrow>
          (Inl (Some (executionError (''Error executing command '' @ [CHR 0x27] @ ''getProp''
                        @ [CHR 0x27] @ '': '' @ thrownMessage error))), ctx')
      | (Inr r, ctx') \<Rightarrow> (Inr r, ctx'))"
  using assms
  by (simp add: executeCommand_def registryExecute_def builtIn_lookup getPropCommand_def
        propertyCommand_def)

text \<open>
  C4 as stated fails on the empty array: its mapped array is empty, and the stage returns
  \<open>null\<close>, not the (empty) mapped array. An \<open>undefined\<close> element, which is not
  \<open>null\<close> and lacks every property, records no soft error either.
\<close>

theorem C4_empty_array_counterexample:
  "fst (executeCommand fixtureHost (registerBuiltInCommands fixtureHost) (PropertyCmd ''id'')
          (fixtureContext ReturnNull (Arr []))) = Inr Null
   \<and> fst (executeCommand fixtureHost (registerBuiltInCommands fixtureHost) (PropertyCmd ''id'')
          (fixtureContext ReturnNull (Arr []))) \<noteq> Inr (Arr (map (propertyOfItem fixtureHost ''id'') []))
   \<and> Undefined \<noteq> Null
   \<and> propertyOfItem fixtureHost ''id'' Undefined = Null
   \<and> hadSoftError (snd (executeCommand fixtureHost (registerBuiltInCommands fixtureHost)
          (PropertyCmd ''id'') (fixtureContext ReturnNull (Arr [Undefined])))) = False"
  by (simp add: property_stage propertyExecute_def fixtureContext_def propertyOfItem_def
        itemLacksProperty_def bearsProperty_def)

text \<open>
  C4 (amended). For a property-access stage whose current value is an array (the
  \<open>property\<close> stage, and the \<open>getProp\<close> invocation when the array has no native member
  of that name): each element is mapped to its property, \<open>null\<close> standing for an element
  that is not an object bearing the property; the soft error is recorded (unless an
  earlier one is stored) exactly when some element that is neither \<open>null\<close> nor
  \<open>undefined\<close> lacked the property; the stage returns \<open>null\<close> when every mapped result
  is \<open>null\<close>, which includes the empty array, and the mapped array otherwise.
\<close>

theorem C4_property_over_array:
  assumes "currentValue ctx = Arr items"
  shows "executeCommand h (registerBuiltInCommands h) (PropertyCmd p) ctx
           = (Inr (if list_all (\<lambda>r. r = Null) (map (propertyOfItem h p) items) then Null
                   else Arr (map (propertyOfItem h p) items)),
              if list_ex (itemLacksProperty h p) items
              then recordSoftError (itemsMissingError p) ctx else ctx)
         \<and> (\<not> isNativeMethod h (Arr items) ''getProp'' \<longrightarrow>
              executeCommand h (registerBuiltInCommands h) (FunctionCmd ''getProp'' [p]) ctx
                = executeCommand h (registerBuiltInCommands h) (PropertyCmd p) ctx)
         \<and> propertyOfItem h p item
             = (if truthy item \<and> typeof item = ''object'' \<and> hasProperty h item p
                then getProperty h item p else Null)
         \<and> itemLacksProperty h p item
             = (\<not> (truthy item \<and> typeof item = ''object'' \<and> hasProperty h item p)
                \<and> item \<noteq> Null \<and> item \<noteq> Undefined)"
proof (intro conjI impI)
  show main: "executeCommand h (registerBuiltInCommands h) (PropertyCmd p) ctx
           = (Inr (if list_all (\<lambda>r. r = Null) (map (propertyOfItem h p) items) then Null
                   else Arr (map (propertyOfItem h p) items)),
              if list_ex (itemLacksProperty h p) items
              then recordSoftError (itemsMissingError p) ctx else ctx)"
    by (simp only: property_stage propertyExecute_array [OF assms] prod.case sum.case)
  assume "\<not> isNativeMethod h (Arr items) ''getProp''"
  then have "executeCommand h (registerBuiltInCommands h) (FunctionCmd ''getProp'' [p]) ctx
             = (case propertyExecute h ctx p of
                  (Inl error, ctx') \<Rightarrow>
                    (Inl (Some (executionError (''Error executing command '' @ [CHR 0x27] @ ''getProp''
                                  @ [CHR 0x27] @ '': '' @ thrownMessage error))), ctx')
                | (Inr r, ctx') \<Rightarrow> (Inr r, ctx'))"
    using assms by (intro getProp_stage) simp_all
  then show "executeCommand h (registerBuiltInCommands h) (FunctionCmd ''getProp'' [p]) ctx
             = executeCommand h (registerBuiltInCommands h) (PropertyCmd p) ctx"
    by (simp only: main propertyExecute_array [OF assms] prod.case sum.case)
next
  show "propertyOfItem h p item
             = (if truthy item \<and> typeof item = ''object'' \<and> hasProperty h item p
                then getProperty h item p else Null)"
    by (simp add: propertyOfItem_def bearsProperty_def)
next
  show "itemLacksProperty h p item
             = (\<not> (truthy item \<and> typeof item = ''object'' \<and> hasProperty h item p)
                \<and> item \<noteq> Null \<and> item \<noteq> Undefined)"
    by (simp add: itemLacksProperty_def bearsProperty_def)
qed

section \<open>What the engine reports\<close>

lemma engineExecute_returns:
  assumes "\<not> (cacheEnabled cfg \<and> fst (cacheGet cache (generateCacheKey h cmds el) now) \<noteq> Null)"
    and "executeCommands h registry 0 cmds
           \<lparr> element = el, currentValue = el, config = cfg, hadSoftError = False, softError = None \<rparr>
         = (Inr v, ctx')"
  shows "fst (engineExecute h registry cache now cmds el cfg)
         = \<lparr> success = \<not> hadSoftError ctx', resultValue = v,
             resultError = (if hadSoftError ctx' then softError ctx' else None),
             commandsExecuted = length cmds, cacheHit = False \<rparr>"
  using assms by (auto simp: engineExecute_def Let_def split: prod.splits)

lemma engineExecute_throws:
  assumes "\<not> (cacheEnabled cfg \<and> fst (cacheGet cache (generateCacheKey h cmds el) now) \<noteq> Null)"
    and "executeCommands h registry 0 cmds
           \<lparr> element = el, currentValue = el, config = cfg, hadSoftError = False, softError = None \<rparr>
         = (Inl (Some e), ctx')"
    and "errorCode (errClass e) \<noteq> None"
  shows "resultError (fst (engineExecute h registry cache now cmds el cfg)) = Some e
         \<and> success (fst (engineExecute h registry cache now cmds el cfg)) = False"
  using assms by (auto simp: engineExecute_def Let_def split: prod.splits)

lemma engineExecute_cached:
  assumes "cacheEnabled cfg" and "fst (cacheGet cache (generateCacheKey h cmds el) now) = c"
    and "c \<noteq> Null"
  shows "fst (engineExecute h registry cache now cmds el cfg)
         = \<lparr> success = True, resultValue = c, resultError = None,
             commandsExecuted = 0, cacheHit = True \<rparr>"
  using assms by (auto simp: engineExecute_def Let_def split: prod.splits)

lemma cacheGet_newCache [simp]: "fst (cacheGet (newCache d) key now) = Null"
  by (simp add: cacheGet_def newCache_def)

subsection \<open>The fixture pipeline\<close>

definition fixtureItems :: "jsvalue list" where
  "fixtureItems =
     [Obj PlainObject [(''id'', Num 1)], Obj PlainObject [(''id'', Num 2)], Obj PlainObject []]"

definition fixtureStart :: "ErrorHandling \<Rightarrow> ExecutionContext" where
  "fixtureStart mode =
     \<lparr> element = Obj DocumentNode [], currentValue = Obj DocumentNode [],
       config = fixtureConfig mode, hadSoftError = False, softError = None \<rparr>"

lemma fixtureStart_fields [simp]:
  "hadSoftError (fixtureStart mode) = False"
  "softError (fixtureStart mode) = None"
  "currentValue (fixtureStart mode) = Obj DocumentNode []"
  "config (fixtureStart mode) = fixtureConfig mode"
  by (simp_all add: fixtureStart_def)

lemma fixture_query:
  assumes "currentValue ctx = Obj DocumentNode []"
  shows "executeCommand fixtureHost (registerBuiltInCommands fixtureHost) (CssSelectorCmd ''items'') ctx
         = (Inr (Arr fixtureItems), ctx)"
proof -
  have q: "querySelectorAll fixtureHost (Obj DocumentNode []) ''items'' = Inr fixtureItems"
    by (simp add: fixtureHost_def fixtureItems_def)
  have n: "length fixtureItems = 3" "hd fixtureItems \<noteq> Arr fixtureItems"
    by (simp_all add: fixtureItems_def)
  show ?thesis
    by (simp add: executeCommand_def registryExecute_def builtIn_lookup cssSelectorCommand_def
          cssSelectorExecute_def assms q n)
qed

lemma fixtureItems_ids:
  "map (propertyOfItem fixtureHost ''id'') fixtureItems = [Num 1, Num 2, Null]"
  "list_ex (itemLacksProperty fixtureHost ''id'') fixtureItems"
  "\<not> isNativeMethod fixtureHost (Arr fixtureItems) ''getProp''"
  by (simp_all add: fixtureItems_def propertyOfItem_def itemLacksProperty_def bearsProperty_def
        hasProperty_def member_def getProperty_def isNativeMethod_def fixtureHost_def)

definition itemsGetPropId :: string where
  "itemsGetPropId = ''items | getProp('' @ [CHR 0x27] @ ''id'' @ [CHR 0x27] @ '')''"

lemma parse_items_getProp:
  "parse itemsGetPropId
   = \<lparr> commands = [CssSelectorCmd ''items'', FunctionCmd ''getProp'' [''id'']],
       isValid = True, errors = [] \<rparr>"
  by (simp add: itemsGetPropId_def parse_def tokenizeLoop_Nil tokenizeLoop_step tokenize_def scanToken_def
        skipWhitespace_def advance_def addToken_def tokenizeIdentifier_def tokenizeString_def
        looksLikeCssSelector_def segmentFrom_def trim_def isWhitespace_def isDigit_def isAlpha_def
        isAlphaNumeric_def isWordChar_def isCssChar_def Let_def startsNumber_def startsIdentifier_def
        parseCommands_end parseCommands_step parseCommand_def parseFunction_def parseArgument_def
        parseArguments_stop parseArguments_step isAtEnd_def peekType_def)

theorem C4_property_over_array_witness:
  "fst (engineExecute fixtureHost (registerBuiltInCommands fixtureHost) (newCache None) 0
          (commands (parse itemsGetPropId))
          (Obj DocumentNode []) (fixtureConfig ReturnNull))
   = \<lparr> success = False, resultValue = Arr [Num 1, Num 2, Null],
       resultError = Some (itemsMissingError ''id''), commandsExecuted = 2, cacheHit = False \<rparr>"
proof -
  let ?R = "registerBuiltInCommands fixtureHost"
  let ?ctx1 = "(fixtureStart ReturnNull) \<lparr> currentValue := Obj DocumentNode [] \<rparr>"
  let ?ctx2 = "(fixtureStart ReturnNull) \<lparr> currentValue := Arr fixtureItems \<rparr>"
  let ?ctx3 = "?ctx2 \<lparr> hadSoftError := True, softError := Some (itemsMissingError ''id'') \<rparr>"
  have s1: "executeCommand fixtureHost ?R (CssSelectorCmd ''items'') ?ctx1 = (Inr (Arr fixtureItems), ?ctx1)"
    by (rule fixture_query) simp
  have cv2: "currentValue ?ctx2 = Arr fixtureItems" by simp
  have s2: "executeCommand fixtureHost ?R (FunctionCmd ''getProp'' [''id'']) ?ctx2
            = (Inr (Arr [Num 1, Num 2, Null]), ?ctx3)"
    using C4_property_over_array [OF cv2, of fixtureHost "''id''" Null]
    by (simp add: fixtureItems_ids recordSoftError_def fixtureStart_def)
  have run: "runCommands fixtureHost ?R [CssSelectorCmd ''items'', FunctionCmd ''getProp'' [''id'']]
               (Obj DocumentNode []) (fixtureStart ReturnNull)
             = (Inr (Arr [Num 1, Num 2, Null]), ?ctx3)"
    by (simp add: s1 s2)
  have start: "\<lparr> element = Obj DocumentNode [], currentValue = Obj DocumentNode [],
                  config = fixtureConfig ReturnNull, hadSoftError = False, softError = None \<rparr>
               = fixtureStart ReturnNull"
    by (simp add: fixtureStart_def)
  have exec: "executeCommands fixtureHost ?R 0 [CssSelectorCmd ''items'', FunctionCmd ''getProp'' [''id'']]
                (fixtureStart ReturnNull)
              = (Inr (Arr [Num 1, Num 2, Null]), ?ctx3)"
    using run by (simp add: executeCommands_def fixtureStart_def fixtureConfig_def)
  have "fst (engineExecute fixtureHost ?R (newCache None) 0
               [CssSelectorCmd ''items'', FunctionCmd ''getProp'' [''id'']]
               (Obj DocumentNode []) (fixtureConfig ReturnNull))
        = \<lparr> success = \<not> hadSoftError ?ctx3, resultValue = Arr [Num 1, Num 2, Null],
            resultError = (if hadSoftError ?ctx3 then softError ?ctx3 else None),
            commandsExecuted = length [CssSelectorCmd ''items'', FunctionCmd ''getProp'' [''id'']],
            cacheHit = False \<rparr>"
    by (rule engineExecute_returns) (simp_all add: start exec)
  then show ?thesis by (simp add: parse_items_getProp numeral_2_eq_2)
qed

text \<open>
  C2. An execution that is not answered from the cache and whose command loop returns
  (value \<open>v\<close>, final context \<open>ctx'\<close>) reports \<open>success = \<not> hadSoftError ctx'\<close>, the
  value \<open>v\<close> the loop computed, and the stored soft error exactly when the flag is set;
  this holds in every error-handling mode, so in particular when the mode is not
  \<open>throw\<close>. An execution answered from the cache never sets the flag and reports
  success with the cached value. The witness is a run that reports \<open>success = False\<close>
  together with a computed value that is not \<open>null\<close>.
\<close>

theorem C2_success_is_not_hadSoftError:
  "(\<not> (cacheEnabled cfg \<and> fst (cacheGet cache (generateCacheKey h cmds el) now) \<noteq> Null)
      \<and> executeCommands h registry 0 cmds
           \<lparr> element = el, currentValue = el, config = cfg, hadSoftError = False, softError = None \<rparr>
         = (Inr v, ctx') \<longrightarrow>
      success (fst (engineExecute h registry cache now cmds el cfg)) = (\<not> hadSoftError ctx')
      \<and> resultValue (fst (engineExecute h registry cache now cmds el cfg)) = v
      \<and> resultError (fst (engineExecute h registry cache now cmds el cfg))
          = (if hadSoftError ctx' then softError ctx' else None))
   \<and> (cacheEnabled cfg \<and> fst (cacheGet cache (generateCacheKey h cmds el) now) \<noteq> Null \<longrightarrow>
      success (fst (engineExecute h registry cache now cmds el cfg))
      \<and> resultValue (fst (engineExecute h registry cache now cmds el cfg))
          = fst (cacheGet cache (generateCacheKey h cmds el) now)
      \<and> resultError (fst (engineExecute h registry cache now cmds el cfg)) = None)"
proof (intro conjI impI)
  assume a: "\<not> (cacheEnabled cfg \<and> fst (cacheGet cache (generateCacheKey h cmds el) now) \<noteq> Null)
      \<and> executeCommands h registry 0 cmds
           \<lparr> element = el, currentValue = el, config = cfg, hadSoftError = False, softError = None \<rparr>
         = (Inr v, ctx')"
  then have r: "fst (engineExecute h registry cache now cmds el cfg)
         = \<lparr> success = \<not> hadSoftError ctx', resultValue = v,
             resultError = (if hadSoftError ctx' then softError ctx' else None),
             commandsExecuted = length cmds, cacheHit = False \<rparr>"
    by (intro engineExecute_returns) simp_all
  show "success (fst (engineExecute h registry cache now cmds el cfg)) = (\<not> hadSoftError ctx')"
    by (simp add: r)
  show "resultValue (fst (engineExecute h registry cache now cmds el cfg)) = v"
    by (simp add: r)
  show "resultError (fst (engineExecute h registry cache now cmds el cfg))
          = (if hadSoftError ctx' then softError ctx' else None)"
    by (simp add: r)
next
  assume a: "cacheEnabled cfg \<and> fst (cacheGet cache (generateCacheKey h cmds el) now) \<noteq> Null"
  then have r: "fst (engineExecute h registry cache now cmds el cfg)
         = \<lparr> success = True, resultValue = fst (cacheGet cache (generateCacheKey h cmds el) now),
             resultError = None, commandsExecuted = 0, cacheHit = True \<rparr>"
    by (intro engineExecute_cached) simp_all
  show "success (fst (engineExecute h registry cache now cmds el cfg))" by (simp add: r)
  show "resultValue (fst (engineExecute h registry cache now cmds el cfg))
          = fst (cacheGet cache (generateCacheKey h cmds el) now)" by (simp add: r)
  show "resultError (fst (engineExecute h registry cache now cmds el cfg)) = None" by (simp add: r)
qed

theorem C2_success_is_not_hadSoftError_witness:
  "success (fst (engineExecute fixtureHost (registerBuiltInCommands fixtureHost) (newCache None) 0
                   [CssSelectorCmd ''items'', PropertyCmd ''id'']
                   (Obj DocumentNode []) (fixtureConfig ReturnDefault))) = False
   \<and> resultValue (fst (engineExecute fixtureHost (registerBuiltInCommands fixtureHost) (newCache None) 0
                   [CssSelectorCmd ''items'', PropertyCmd ''id'']
                   (Obj DocumentNode []) (fixtureConfig ReturnDefault))) = Arr [Num 1, Num 2, Null]
   \<and> Arr [Num 1, Num 2, Null] \<noteq> Null"
proof -
  let ?R = "registerBuiltInCommands fixtureHost"
  let ?cmds = "[CssSelectorCmd ''items'', PropertyCmd ''id'']"
  let ?ctx1 = "(fixtureStart ReturnDefault) \<lparr> currentValue := Obj DocumentNode [] \<rparr>"
  let ?ctx2 = "(fixtureStart ReturnDefault) \<lparr> currentValue := Arr fixtureItems \<rparr>"
  let ?ctx3 = "?ctx2 \<lparr> hadSoftError := True, softError := Some (itemsMissingError ''id'') \<rparr>"
  have s1: "executeCommand fixtureHost ?R (CssSelectorCmd ''items'') ?ctx1 = (Inr (Arr fixtureItems), ?ctx1)"
    by (rule fixture_query) simp
  have cv2: "currentValue ?ctx2 = Arr fixtureItems" by simp
  have s2: "executeCommand fixtureHost ?R (PropertyCmd ''id'') ?ctx2 = (Inr (Arr [Num 1, Num 2, Null]), ?ctx3)"
    by (simp add: property_stage propertyExecute_array [OF cv2] fixtureItems_ids recordSoftError_def)
  have run: "runCommands fixtureHost ?R ?cmds (Obj DocumentNode []) (fixtureStart ReturnDefault)
             = (Inr (Arr [Num 1, Num 2, Null]), ?ctx3)"
    by (simp add: s1 s2)
  have exec: "executeCommands fixtureHost ?R 0 ?cmds
                \<lparr> element = Obj DocumentNode [], currentValue = Obj DocumentNode [],
                  config = fixtureConfig ReturnDefault, hadSoftError = False, softError = None \<rparr>
              = (Inr (Arr [Num 1, Num 2, Null]), ?ctx3)"
    using run by (simp add: executeCommands_def fixtureStart_def fixtureConfig_def)
  have nohit: "\<not> (cacheEnabled (fixtureConfig ReturnDefault)
                   \<and> fst (cacheGet (newCache None)
                            (generateCacheKey fixtureHost ?cmds (Obj DocumentNode [])) 0) \<noteq> Null)"
    by simp
  from C2_success_is_not_hadSoftError [where cfg = "fixtureConfig ReturnDefault" and cache = "newCache None"
        and h = fixtureHost and cmds = ?cmds and el = "Obj DocumentNode []" and now = 0 and registry = ?R
        and v = "Arr [Num 1, Num 2, Null]" and ctx' = ?ctx3]
       nohit exec
  show ?thesis by simp
qed

section \<open>The first soft error is kept\<close>

lemma softFail_keeps: "hadSoftError ctx \<Longrightarrow> snd (softFail e ctx) = ctx"
  by (simp add: recordSoftError_idle)


















section \<open>Invocation dispatch\<close>

definition unknownCommand :: "string \<Rightarrow> SuperSelectorError" where
  "unknownCommand name = executionError (''Unknown method or command: '' @ name)"

lemma invocation_dispatch:
  assumes "currentValue ctx \<noteq> Null" and "currentValue ctx \<noteq> Undefined"
  shows "executeCommand h registry (FunctionCmd name args) ctx
         = (if isNativeMethod h (currentValue ctx) name
            then (executeNativeMethod h (currentValue ctx) name args, ctx)
            else if registry name \<noteq> None then registryExecute h registry name ctx (map Str args)
            else softFail (unknownCommand name) ctx)"
  using assms by (simp add: executeCommand_def unknownCommand_def)

lemma native_method_not_shadowed:
  assumes "typeof (currentValue ctx) = ''object'' \<or> typeof (currentValue ctx) = ''function''"
    and "currentValue ctx \<noteq> Null"
    and "typeof (getProperty h (currentValue ctx) name) = ''function''"
  shows "executeCommand h registry (FunctionCmd name args) ctx
         = (executeNativeMethod h (currentValue ctx) name args, ctx)"
proof -
  from assms(1) have "currentValue ctx \<noteq> Undefined" by auto
  moreover from assms have "isNativeMethod h (currentValue ctx) name"
    by (auto simp: isNativeMethod_def)
  ultimately show ?thesis using assms(2) by (simp add: invocation_dispatch)
qed

lemma convertArg_cases:
  "convertArg h ''true'' = Bool True"
  "convertArg h ''false'' = Bool False"
  "arg \<noteq> ''true'' \<Longrightarrow> arg \<noteq> ''false'' \<Longrightarrow> toNumber h arg = Some n \<Longrightarrow> trim arg \<noteq> [] \<Longrightarrow>
     convertArg h arg = Num n"
  "arg \<noteq> ''true'' \<Longrightarrow> arg \<noteq> ''false'' \<Longrightarrow> toNumber h arg = None \<or> trim arg = [] \<Longrightarrow>
     convertArg h arg = Str arg"
  by (auto simp: convertArg_def split: option.splits)

text \<open>
  C3 holds for a current value of type object or function (\<open>native_method_not_shadowed\<close>,
  \<open>invocation_dispatch\<close>, \<open>convertArg_cases\<close>), and fails for a primitive one:
  \<open>isNativeMethod\<close> answers \<open>false\<close> for every value whose type is neither
  \<open>object\<close> nor \<open>function\<close> before it looks at the member. A string exposes
  \<open>trim\<close> as a function-valued member, yet an invocation of \<open>trim\<close> on a string is
  sent to the registry and, with no such command registered, ends as the soft error
  \<open>Unknown method or command\<close>.
\<close>

theorem C3_primitive_receiver_skips_native:
  assumes "typeof (currentValue ctx) \<noteq> ''object''" and "typeof (currentValue ctx) \<noteq> ''function''"
    and "currentValue ctx \<noteq> Undefined"
    and "typeof (getProperty h (currentValue ctx) name) = ''function''"
    and "registry name = None"
  shows "executeCommand h registry (FunctionCmd name args) ctx = softFail (unknownCommand name) ctx"
proof -
  from assms(1) have "currentValue ctx \<noteq> Null" by auto
  moreover from assms(1,2) have "\<not> isNativeMethod h (currentValue ctx) name"
    by (simp add: isNativeMethod_def)
  ultimately show ?thesis using assms(3,5) by (simp add: invocation_dispatch)
qed

definition readmeBasicUsage :: string where
  "readmeBasicUsage = ''div.content | textContent | trim()''"

lemma parse_readmeBasicUsage:
  "parse readmeBasicUsage
   = \<lparr> commands = [CssSelectorCmd ''div.content'', PropertyCmd ''textContent'', FunctionCmd ''trim'' []],
       isValid = True, errors = [] \<rparr>"
  by (simp add: readmeBasicUsage_def parse_def tokenizeLoop_Nil tokenizeLoop_step tokenize_def scanToken_def
        skipWhitespace_def advance_def addToken_def tokenizeIdentifier_def
        looksLikeCssSelector_def segmentFrom_def trim_def isWhitespace_def isDigit_def isAlpha_def
        isAlphaNumeric_def isWordChar_def isCssChar_def Let_def startsNumber_def startsIdentifier_def
        parseCommands_end parseCommands_step parseCommand_def parseFunction_def parseArgument_def
        parseArguments_stop parseArguments_step isAtEnd_def peekType_def)

theorem C3_primitive_receiver_skips_native_witness:
  "typeof (getProperty fixtureHost (Str ''  Hello '') ''trim'') = ''function''
   \<and> callMethod fixtureHost (Str ''  Hello '') ''trim'' [] = Inr (Str ''Hello'')
   \<and> fst (engineExecute fixtureHost (registerBuiltInCommands fixtureHost) (newCache None) 0
            (commands (parse readmeBasicUsage)) (Obj DocumentNode []) (fixtureConfig ReturnNull))
     = \<lparr> success = False, resultValue = Null,
         resultError = Some (unknownCommand ''trim''), commandsExecuted = 3, cacheHit = False \<rparr>"
proof -
  let ?R = "registerBuiltInCommands fixtureHost"
  let ?cmds = "[CssSelectorCmd ''div.content'', PropertyCmd ''textContent'', FunctionCmd ''trim'' []]"
  let ?el = "Obj ElementNode [(''textContent'', Str ''  Hello '')]"
  let ?ctx0 = "(fixtureStart ReturnNull) \<lparr> currentValue := Obj DocumentNode [] \<rparr>"
  let ?ctx1 = "(fixtureStart ReturnNull) \<lparr> currentValue := ?el \<rparr>"
  let ?ctx2 = "(fixtureStart ReturnNull) \<lparr> currentValue := Str ''  Hello '' \<rparr>"
  let ?ctx3 = "?ctx2 \<lparr> hadSoftError := True, softError := Some (unknownCommand ''trim'') \<rparr>"
  have member: "typeof (getProperty fixtureHost (Str ''  Hello '') ''trim'') = ''function''"
    by (simp add: getProperty_def member_def fixtureHost_def)
  have native: "callMethod fixtureHost (Str ''  Hello '') ''trim'' [] = Inr (Str ''Hello'')"
    by (simp add: fixtureHost_def trim_def isWhitespace_def)
  have q: "querySelectorAll fixtureHost (Obj DocumentNode []) ''div.content'' = Inr [?el]"
    by (simp add: fixtureHost_def)
  have s1: "executeCommand fixtureHost ?R (CssSelectorCmd ''div.content'') ?ctx0 = (Inr ?el, ?ctx0)"
    by (simp add: executeCommand_def registryExecute_def builtIn_lookup cssSelectorCommand_def
          cssSelectorExecute_def q)
  have s2: "executeCommand fixtureHost ?R (PropertyCmd ''textContent'') ?ctx1 = (Inr (Str ''  Hello ''), ?ctx1)"
    by (simp add: property_stage propertyExecute_def bearsProperty_def hasProperty_def member_def
          getProperty_def)
  have unregistered: "?R ''trim'' = None"
    by (simp add: registerBuiltInCommands_def)
  have mode: "errorHandling (fixtureConfig ReturnNull) = ReturnNull"
    by (simp add: fixtureConfig_def)
  have "executeCommand fixtureHost ?R (FunctionCmd ''trim'' []) ?ctx2
        = softFail (unknownCommand ''trim'') ?ctx2"
    using member unregistered
    by (intro C3_primitive_receiver_skips_native) simp_all
  also have "\<dots> = (Inr Null, ?ctx3)"
    by (simp add: softFail_eq mode resolveDefault_def recordSoftError_def)
  finally have s3: "executeCommand fixtureHost ?R (FunctionCmd ''trim'' []) ?ctx2 = (Inr Null, ?ctx3)" .
  have run: "runCommands fixtureHost ?R ?cmds (Obj DocumentNode []) (fixtureStart ReturnNull)
             = (Inr Null, ?ctx3)"
    by (simp add: s1 s2 s3)
  have exec: "executeCommands fixtureHost ?R 0 ?cmds
                \<lparr> element = Obj DocumentNode [], currentValue = Obj DocumentNode [],
                  config = fixtureConfig ReturnNull, hadSoftError = False, softError = None \<rparr>
              = (Inr Null, ?ctx3)"
    using run by (simp add: executeCommands_def fixtureStart_def fixtureConfig_def)
  have "fst (engineExecute fixtureHost ?R (newCache None) 0 ?cmds (Obj DocumentNode [])
               (fixtureConfig ReturnNull))
        = \<lparr> success = \<not> hadSoftError ?ctx3, resultValue = Null,
            resultError = (if hadSoftError ?ctx3 then softError ?ctx3 else None),
            commandsExecuted = length ?cmds, cacheHit = False \<rparr>"
    by (rule engineExecute_returns) (simp_all add: exec)
  then show ?thesis
    by (simp add: member native parse_readmeBasicUsage numeral_3_eq_3)
qed

section \<open>An invalid pattern given to matchProp\<close>

definition invalidPattern :: "string \<Rightarrow> SuperSelectorError" where
  "invalidPattern regexPattern = validationError (''Invalid regex pattern: '' @ regexPattern)"

definition wrappedByRegistry :: "string \<Rightarrow> SuperSelectorError \<Rightarrow> SuperSelectorError" where
  "wrappedByRegistry name e =
     executionError (''Error executing command '' @ [CHR 0x27] @ name @ [CHR 0x27] @ '': '' @ message e)"

lemma matchProp_stage:
  assumes "currentValue ctx \<noteq> Null" and "currentValue ctx \<noteq> Undefined"
    and "\<not> isNativeMethod h (currentValue ctx) ''matchProp''"
  shows "executeCommand h (registerBuiltInCommands h) (FunctionCmd ''matchProp'' [p, regexPattern]) ctx
         = (case matchPropExecute h ctx p regexPattern of
              (Inl error, ctx') \<Rightarrow>
                (Inl (Some (executionError (''Error executing command '' @ [CHR 0x27] @ ''matchProp''
                              @ [CHR 0x27] @ '': '' @ thrownMessage error))), ctx')
            | (Inr r, ctx') \<Rightarrow> (Inr r, ctx'))"
  using assms
  by (simp add: invocation_dispatch registryExecute_def builtIn_lookup matchPropCommand_def)

text \<open>
  C5 fails in throw mode. The handler builds a validation error for a pattern the host
  rejects and, in throw mode, throws it; \<open>CommandRegistry.execute\<close> catches whatever a
  handler throws and throws an execution error carrying the message instead, so the error
  that reaches the caller is of the execution kind. In the other two modes the stage
  returns \<open>null\<close> or the default and records the validation error (unless an earlier
  soft error is stored).
\<close>

theorem C5_invalid_pattern_error_kind:
  assumes "newRegExp h regexPattern = None"
    and "currentValue ctx \<noteq> Null" and "currentValue ctx \<noteq> Undefined"
    and "\<not> isNativeMethod h (currentValue ctx) ''matchProp''"
  shows "(errorHandling (config ctx) = Throw \<longrightarrow>
            matchPropExecute h ctx p regexPattern = (Inl (Some (invalidPattern regexPattern)), ctx)
            \<and> executeCommand h (registerBuiltInCommands h) (FunctionCmd ''matchProp'' [p, regexPattern]) ctx
                = (Inl (Some (wrappedByRegistry ''matchProp'' (invalidPattern regexPattern))), ctx)
            \<and> errClass (wrappedByRegistry ''matchProp'' (invalidPattern regexPattern)) = ExecutionError)
         \<and> (errorHandling (config ctx) \<noteq> Throw \<longrightarrow>
            executeCommand h (registerBuiltInCommands h) (FunctionCmd ''matchProp'' [p, regexPattern]) ctx
                = (Inr (resolveDefault ctx), recordSoftError (invalidPattern regexPattern) ctx)
            \<and> errClass (invalidPattern regexPattern) = ValidationError)"
proof (intro conjI impI)
  assume t: "errorHandling (config ctx) = Throw"
  then show m: "matchPropExecute h ctx p regexPattern = (Inl (Some (invalidPattern regexPattern)), ctx)"
    using assms(1) by (simp add: matchPropExecute_def invalidPattern_def)
  show "executeCommand h (registerBuiltInCommands h) (FunctionCmd ''matchProp'' [p, regexPattern]) ctx
          = (Inl (Some (wrappedByRegistry ''matchProp'' (invalidPattern regexPattern))), ctx)"
    by (simp add: matchProp_stage [OF assms(2,3,4)] m wrappedByRegistry_def thrownMessage_def)
  show "errClass (wrappedByRegistry ''matchProp'' (invalidPattern regexPattern)) = ExecutionError"
    by (simp add: wrappedByRegistry_def executionError_def)
next
  assume t: "errorHandling (config ctx) \<noteq> Throw"
  then have m: "matchPropExecute h ctx p regexPattern
                = (Inr (resolveDefault ctx), recordSoftError (invalidPattern regexPattern) ctx)"
    using assms(1) by (simp add: matchPropExecute_def invalidPattern_def Let_def)
  show "executeCommand h (registerBuiltInCommands h) (FunctionCmd ''matchProp'' [p, regexPattern]) ctx
          = (Inr (resolveDefault ctx), recordSoftError (invalidPattern regexPattern) ctx)"
    by (simp add: matchProp_stage [OF assms(2,3,4)] m)
  show "errClass (invalidPattern regexPattern) = ValidationError"
    by (simp add: invalidPattern_def validationError_def)
qed

theorem C5_invalid_pattern_error_kind_witness:
  "resultError (fst (engineExecute fixtureHost (registerBuiltInCommands fixtureHost) (newCache None) 0
                       [FunctionCmd ''matchProp'' [''name'', ''('']]
                       (Obj DocumentNode []) (fixtureConfig Throw)))
     = Some \<lparr> errClass = ExecutionError,
              message = ''Error executing command '' @ [CHR 0x27] @ ''matchProp'' @ [CHR 0x27]
                          @ '': Invalid regex pattern: ('' \<rparr>
   \<and> resultError (fst (engineExecute fixtureHost (registerBuiltInCommands fixtureHost) (newCache None) 0
                       [FunctionCmd ''matchProp'' [''name'', ''('']]
                       (Obj DocumentNode []) (fixtureConfig ReturnNull)))
     = Some \<lparr> errClass = ValidationError, message = ''Invalid regex pattern: ('' \<rparr>"
proof -
  let ?R = "registerBuiltInCommands fixtureHost"
  let ?cmds = "[FunctionCmd ''matchProp'' [''name'', ''('']]"
  have rejected: "newRegExp fixtureHost ''('' = None" by (simp add: fixtureHost_def)
  have doc: "currentValue ((fixtureStart mode) \<lparr> currentValue := Obj DocumentNode [] \<rparr>) \<noteq> Null"
    "currentValue ((fixtureStart mode) \<lparr> currentValue := Obj DocumentNode [] \<rparr>) \<noteq> Undefined"
    "\<not> isNativeMethod fixtureHost
         (currentValue ((fixtureStart mode) \<lparr> currentValue := Obj DocumentNode [] \<rparr>)) ''matchProp''"
    for mode
    by (simp_all add: isNativeMethod_def getProperty_def member_def)
  have modes: "errorHandling (fixtureConfig Throw) = Throw"
    "errorHandling (fixtureConfig ReturnNull) = ReturnNull"
    by (simp_all add: fixtureConfig_def)
  note thrown = C5_invalid_pattern_error_kind [OF rejected doc(1) doc(2) doc(3), of Throw "''name''"]
  note soft = C5_invalid_pattern_error_kind [OF rejected doc(1) doc(2) doc(3), of ReturnNull "''name''"]
  let ?ctxT = "(fixtureStart Throw) \<lparr> currentValue := Obj DocumentNode [] \<rparr>"
  let ?ctxN = "(fixtureStart ReturnNull) \<lparr> currentValue := Obj DocumentNode [] \<rparr>"
  have sT: "executeCommand fixtureHost ?R (FunctionCmd ''matchProp'' [''name'', ''('']) ?ctxT
            = (Inl (Some (wrappedByRegistry ''matchProp'' (invalidPattern ''(''))), ?ctxT)"
    using thrown by (simp add: modes)
  have sN: "executeCommand fixtureHost ?R (FunctionCmd ''matchProp'' [''name'', ''('']) ?ctxN
            = (Inr Null, recordSoftError (invalidPattern ''('') ?ctxN)"
    using soft by (simp add: modes resolveDefault_def)
  have execT: "executeCommands fixtureHost ?R 0 ?cmds
                 \<lparr> element = Obj DocumentNode [], currentValue = Obj DocumentNode [],
                   config = fixtureConfig Throw, hadSoftError = False, softError = None \<rparr>
               = (Inl (Some (wrappedByRegistry ''matchProp'' (invalidPattern ''(''))), ?ctxT)"
  proof -
    have "runCommands fixtureHost ?R ?cmds (Obj DocumentNode []) (fixtureStart Throw)
          = (Inl (Some (wrappedByRegistry ''matchProp'' (invalidPattern ''(''))), ?ctxT)"
      by (simp add: sT)
    then show ?thesis by (simp add: executeCommands_def fixtureStart_def fixtureConfig_def)
  qed
  have execN: "executeCommands fixtureHost ?R 0 ?cmds
                 \<lparr> element = Obj DocumentNode [], currentValue = Obj DocumentNode [],
                   config = fixtureConfig ReturnNull, hadSoftError = False, softError = None \<rparr>
               = (Inr Null, recordSoftError (invalidPattern ''('') ?ctxN)"
  proof -
    have "runCommands fixtureHost ?R ?cmds (Obj DocumentNode []) (fixtureStart ReturnNull)
          = (Inr Null, recordSoftError (invalidPattern ''('') ?ctxN)"
      by (simp add: sN)
    then show ?thesis by (simp add: executeCommands_def fixtureStart_def fixtureConfig_def)
  qed
  have code: "errorCode (errClass (wrappedByRegistry ''matchProp'' (invalidPattern ''(''))) \<noteq> None"
    by (simp add: wrappedByRegistry_def executionError_def)
  have rT: "resultError (fst (engineExecute fixtureHost ?R (newCache None) 0 ?cmds (Obj DocumentNode [])
                               (fixtureConfig Throw)))
            = Some (wrappedByRegistry ''matchProp'' (invalidPattern ''(''))"
    using engineExecute_throws [OF _ execT code, of "newCache None" 0] by simp
  have "fst (engineExecute fixtureHost ?R (newCache None) 0 ?cmds (Obj DocumentNode [])
               (fixtureConfig ReturnNull))
        = \<lparr> success = \<not> hadSoftError (recordSoftError (invalidPattern ''('') ?ctxN), resultValue = Null,
            resultError = (if hadSoftError (recordSoftError (invalidPattern ''('') ?ctxN)
                           then softError (recordSoftError (invalidPattern ''('') ?ctxN) else None),
            commandsExecuted = length ?cmds, cacheHit = False \<rparr>"
    by (rule engineExecute_returns) (simp_all add: execN)
  then have rN: "resultError (fst (engineExecute fixtureHost ?R (newCache None) 0 ?cmds (Obj DocumentNode [])
                               (fixtureConfig ReturnNull)))
            = Some (invalidPattern ''('')"
    by (simp add: recordSoftError_first)
  show ?thesis
    using rT rN
    by (simp add: wrappedByRegistry_def invalidPattern_def executionError_def validationError_def)
qed

end
